theory Spec2Isabelle
  imports Complex_Main "HOL-Library.AList" "HOL-Library.Multiset" "HOL-Library.Sublist"
begin

chapter \<open>The embedding of \<open>unifold/dataset.py\<close>\<close>

section \<open>Python values shared by the embedding\<close>

text \<open>
  Exceptions of the Python source are values. An \<open>AssertionError\<close> carries the message of
  the failed \<open>assert\<close> (empty when the source gives none); \<open>FileNotFoundError\<close>, \<open>KeyError\<close>,
  \<open>NameError\<close> and \<open>AttributeError\<close> carry the path, key or name that could not be
  resolved.
\<close>

datatype error =
    AssertionError string
  | FileNotFoundError string
  | KeyError string
  | IndexError
  | ValueError
  | ZeroDivisionError
  | NameError string
  | AttributeError string
  | TypeError

text \<open>
  A Python \<open>dict\<close> keeps its keys in insertion order: it is an association list whose
  lookup is \<open>map_of\<close> and whose item assignment is \<open>AList.update\<close> (an existing key keeps its
  place, a new key goes to the end).
\<close>

type_synonym ('k, 'v) dict = "('k \<times> 'v) list"

definition keys :: "('k, 'v) dict \<Rightarrow> 'k list" where
  "keys d = map fst d"

section \<open>\<open>UnifoldDataset._inverse_map\<close>\<close>

text \<open>
  \<^verbatim>\<open>
  for ent, refs in mapping.items():
      for ref in refs:
          if ref in inverse_mapping:  # duplicated ent for this ref.
              ent_2 = inverse_mapping[ref]
              assert ent == ent_2, f"multiple entities ({ent_2}, {ent}) exist for reference {ref}."
          inverse_mapping[ref] = ent
  \<close>
  The inner loop is \<open>inverse_map_refs\<close>, the outer one \<open>inverse_map_items\<close>.
\<close>

definition multiple_entities :: "string \<Rightarrow> string \<Rightarrow> string \<Rightarrow> string" where
  "multiple_entities ent_2 ent ref =
     ''multiple entities ('' @ ent_2 @ '', '' @ ent @ '') exist for reference '' @ ref @ ''.''"

fun inverse_map_refs ::
  "string \<Rightarrow> string list \<Rightarrow> (string, string) dict \<Rightarrow> error + (string, string) dict" where
  "inverse_map_refs ent [] inverse_mapping = Inr inverse_mapping"
| "inverse_map_refs ent (ref # refs) inverse_mapping =
     (case map_of inverse_mapping ref of
        Some ent_2 \<Rightarrow>
          if ent = ent_2
          then inverse_map_refs ent refs (AList.update ref ent inverse_mapping)
          else Inl (AssertionError (multiple_entities ent_2 ent ref))
      | None \<Rightarrow> inverse_map_refs ent refs (AList.update ref ent inverse_mapping))"

fun inverse_map_items ::
  "(string, string list) dict \<Rightarrow> (string, string) dict \<Rightarrow> error + (string, string) dict" where
  "inverse_map_items [] inverse_mapping = Inr inverse_mapping"
| "inverse_map_items ((ent, refs) # items) inverse_mapping =
     (case inverse_map_refs ent refs inverse_mapping of
        Inl e \<Rightarrow> Inl e
      | Inr inverse_mapping' \<Rightarrow> inverse_map_items items inverse_mapping')"

definition inverse_map :: "(string, string list) dict \<Rightarrow> error + (string, string) dict" where
  "inverse_map mapping = inverse_map_items mapping []"

section \<open>\<open>UnifoldMultimerDataset.collater\<close>\<close>

text \<open>
  \<^verbatim>\<open>
  if len(samples) <= 0:  # tackle empty batch
      return None
  feats = [s[0] for s in samples]
  labs = [s[1] for s in samples if s[1] is not None]
  try:
      feats = data_utils.collate_dict(feats, dim=1)
  except:
      raise ValueError("cannot collate features", feats)
  if not labs:
      labs = None
  return feats, labs
  \<close>
  A sample is a pair of a feature record and an optional label. The library function
  \<open>collate_dict\<close> is a parameter that may fail; whatever it raises is caught and replaced by a
  \<open>ValueError\<close> whose arguments are the message and the list of per-example features (the
  assignment to \<open>feats\<close> did not happen).
\<close>

datatype 'f collation_error = CollationValueError string "'f list"

definition multimer_collater ::
  "('f list \<Rightarrow> nat \<Rightarrow> 'e + 'b) \<Rightarrow> ('f \<times> 'l option) list \<Rightarrow>
   'f collation_error + ('b \<times> 'l list option) option" where
  "multimer_collater collate_dict samples =
     (if length samples \<le> 0 then Inr None
      else
        let feats = map fst samples;
            labs = List.map_filter snd samples
        in case collate_dict feats 1 of
             Inl _ \<Rightarrow> Inl (CollationValueError ''cannot collate features'' feats)
           | Inr feats' \<Rightarrow> Inr (Some (feats', if labs = [] then None else Some labs)))"

text \<open>A stacking function to run the collater on: it fails on rows of different lengths.\<close>

definition stack_same_length :: "nat list list \<Rightarrow> nat \<Rightarrow> unit + nat list list" where
  "stack_same_length feats d =
     (if list_all (\<lambda>f. length f = length (hd feats)) feats then Inr (transpose feats) else Inl ())"

section \<open>\<open>UnifoldMultimerDataset.filter_pdb_by_max_chains\<close>\<close>

text \<open>
  An entry of \<open>pdb_assembly.json\<close>: the chain ids of the biological assembly and one symmetry
  operation per chain.
\<close>

record 'o assembly =
  chains :: "string list"
  opers :: "'o list"

text \<open>\<^verbatim>\<open>chain.split("_")[0]\<close>: the text before the first underscore.\<close>

definition get_pdb_name :: "string \<Rightarrow> string" where
  "get_pdb_name chain = takeWhile (\<lambda>c. c \<noteq> CHR ''_'') chain"

text \<open>
  \<^verbatim>\<open>
  def list_overlaps(a,b):
      for i in a:
          if i not in b:
              return False
      return True
  \<close>
\<close>

fun list_overlaps :: "'a list \<Rightarrow> 'a list \<Rightarrow> bool" where
  "list_overlaps [] b = True"
| "list_overlaps (i # a) b = (if i \<notin> set b then False else list_overlaps a b)"

text \<open>
  The loop \<^verbatim>\<open>for chain in pdb_chains\<close> runs over the items of the dict: \<open>cs\<close> is
  \<^verbatim>\<open>pdb_chains[chain]\<close>. A structure listed in the assembly map is stored (the source
  stores it twice) when its assembly is small enough and all its chains are labelled; one
  that is not listed is stored when it has exactly one chain.
\<close>

fun filter_pdb_loop ::
  "(string, string list) dict \<Rightarrow> (string, 'o assembly) dict \<Rightarrow> int \<Rightarrow> (string, 'v) dict \<Rightarrow>
   (string, string list) dict \<Rightarrow> (string, string list) dict" where
  "filter_pdb_loop [] pdb_assembly max_chains inverse_labels new_pdb_chains = new_pdb_chains"
| "filter_pdb_loop ((chain, cs) # rest) pdb_assembly max_chains inverse_labels new_pdb_chains =
     filter_pdb_loop rest pdb_assembly max_chains inverse_labels
       (case map_of pdb_assembly chain of
          Some a \<Rightarrow>
            if int (length (chains a)) \<le> max_chains
            then
              let curr_chains = map (\<lambda>chain_id. chain @ ''_'' @ chain_id) (chains a)
              in if list_overlaps curr_chains (keys inverse_labels)
                 then AList.update chain cs (AList.update chain cs new_pdb_chains)
                 else new_pdb_chains
            else new_pdb_chains
        | None \<Rightarrow>
            if length cs = 1 then AList.update chain cs new_pdb_chains else new_pdb_chains)"

definition filter_pdb_by_max_chains ::
  "(string, string list) dict \<Rightarrow> (string, 'o assembly) dict \<Rightarrow> (string, 'w) dict \<Rightarrow> int \<Rightarrow>
   (string, 'v) dict \<Rightarrow> (string, string list) dict \<times> (string, 'w) dict" where
  "filter_pdb_by_max_chains pdb_chains pdb_assembly sample_weight max_chains inverse_labels =
     (let new_pdb_chains = filter_pdb_loop pdb_chains pdb_assembly max_chains inverse_labels [];
          new_sample_weight =
            filter (\<lambda>(k, w). get_pdb_name k \<in> set (keys new_pdb_chains)) sample_weight
      in (new_pdb_chains, new_sample_weight))"

text \<open>The test the loop applies to one item of the chain index.\<close>

definition survives ::
  "(string, 'o assembly) dict \<Rightarrow> int \<Rightarrow> (string, 'v) dict \<Rightarrow> string \<times> string list \<Rightarrow> bool" where
  "survives pdb_assembly max_chains inverse_labels item =
     (case map_of pdb_assembly (fst item) of
        Some a \<Rightarrow> int (length (chains a)) \<le> max_chains \<and>
                 list_overlaps (map (\<lambda>chain_id. fst item @ ''_'' @ chain_id) (chains a))
                   (keys inverse_labels)
      | None \<Rightarrow> length (snd item) = 1)"

section \<open>\<open>calculate_offsets\<close>\<close>

text \<open>
  \<^verbatim>\<open>
  unique_asym_ids = np.unique(asym_ids)
  seq_lens = [np.sum(asym_ids==u) for u in unique_asym_ids]
  return np.cumsum([0] + seq_lens)
  \<close>
  \<open>np.unique\<close> returns the distinct values in ascending order, \<open>np.cumsum\<close> the running sums.
  The per-residue ids are integers; counts and offsets are natural numbers.
\<close>

definition unique :: "int list \<Rightarrow> int list" where
  "unique xs = sort (remdups xs)"

fun cumsum_from :: "nat \<Rightarrow> nat list \<Rightarrow> nat list" where
  "cumsum_from acc [] = []"
| "cumsum_from acc (x # xs) = (acc + x) # cumsum_from (acc + x) xs"

definition cumsum :: "nat list \<Rightarrow> nat list" where
  "cumsum xs = cumsum_from 0 xs"

definition calculate_offsets :: "int list \<Rightarrow> nat list" where
  "calculate_offsets asym_ids =
     (let unique_asym_ids = unique asym_ids;
          seq_lens = map (\<lambda>u. count_list asym_ids u) unique_asym_ids
      in cumsum ([0] @ seq_lens))"

text \<open>A list laid out as one run per value: \<open>c v\<close> copies of each \<open>v\<close> of \<open>us\<close>, in order.\<close>

definition blocks :: "(int \<Rightarrow> nat) \<Rightarrow> int list \<Rightarrow> int list" where
  "blocks c us = concat (map (\<lambda>v. replicate (c v) v) us)"

section \<open>A small data set to run the filter on\<close>

text \<open>
  Four structures: a listed dimer, an unlisted monomer, a listed trimer and an unlisted dimer.
\<close>

definition example_pdb_chains :: "(string, string list) dict" where
  "example_pdb_chains =
     [(''1abc'', [''1abc_A'', ''1abc_B'']),
      (''2xyz'', [''2xyz_A'']),
      (''3big'', [''3big_A'', ''3big_B'', ''3big_C'']),
      (''4two'', [''4two_A'', ''4two_B''])]"

definition example_pdb_assembly :: "(string, string assembly) dict" where
  "example_pdb_assembly =
     [(''1abc'', \<lparr>chains = [''A'', ''B''], opers = [''I'', ''I'']\<rparr>),
      (''3big'', \<lparr>chains = [''A'', ''B'', ''C''], opers = [''I'', ''I'', ''I'']\<rparr>)]"

definition example_inverse_labels :: "(string, string) dict" where
  "example_inverse_labels =
     [(''1abc_A'', ''s1''), (''1abc_B'', ''s2''), (''2xyz_A'', ''s3''),
      (''3big_A'', ''s4''), (''3big_B'', ''s4''), (''3big_C'', ''s4''),
      (''4two_A'', ''s5''), (''4two_B'', ''s5'')]"

definition example_sample_weight :: "(string, rat) dict" where
  "example_sample_weight =
     [(''1abc_A'', 1), (''1abc_B'', 2), (''2xyz_A'', 3),
      (''3big_A'', 4), (''3big_B'', 4), (''3big_C'', 4),
      (''4two_A'', 5), (''4two_B'', 5)]"

section \<open>\<open>bin_xl\<close>\<close>

text \<open>
  \<^verbatim>\<open>
  bins = torch.arange(0,1.05,0.05)
  xl = xl[torch.randperm(len(xl))]
  output = np.zeros((num_res,num_res,1))
  for i, (r1,r2,fdr) in enumerate(xl):
      r1 = int(r1.item())
      r2 = int(r2.item())
      output[r1,r2,0] = output[r2,r1,0] = torch.bucketize(1-fdr, bins)
  return output
  \<close>
  A row of \<open>xl\<close> is a triple of numbers (the tensor is a float tensor; the numbers are
  rationals here, so the thresholds \<open>0.05 k\<close> are exact). \<open>int\<close> truncates towards zero. A
  NumPy index may be negative, counting from the end, and raises \<open>IndexError\<close> out of range.
  The array is a nested list with axes \<open>num_res \<times> num_res \<times> 1\<close>. The chained assignment
  evaluates the right-hand side once and stores it into the targets from left to right.
  \<open>torch.bucketize\<close> (with \<open>right=False\<close>) returns the number of boundaries below the value,
  the boundaries being sorted. The permutation drawn by \<open>torch.randperm\<close> is the argument
  \<open>randperm\<close>.
\<close>

definition py_int :: "rat \<Rightarrow> int" where
  "py_int x = (if 0 \<le> x then \<lfloor>x\<rfloor> else \<lceil>x\<rceil>)"

definition norm_index :: "nat \<Rightarrow> int \<Rightarrow> error + nat" where
  "norm_index n i =
     (if 0 \<le> i \<and> i < int n then Inr (nat i)
      else if - int n \<le> i \<and> i < 0 then Inr (nat (i + int n))
      else Inl IndexError)"

definition zeros3 :: "nat \<Rightarrow> nat \<Rightarrow> nat \<Rightarrow> nat list list list" where
  "zeros3 a b c = replicate a (replicate b (replicate c 0))"

definition setitem3 :: "'a list list list \<Rightarrow> int \<Rightarrow> int \<Rightarrow> int \<Rightarrow> 'a \<Rightarrow> error + 'a list list list" where
  "setitem3 arr i j k v =
     (case norm_index (length arr) i of
        Inl e \<Rightarrow> Inl e
      | Inr i' \<Rightarrow>
          (case norm_index (length (arr ! i')) j of
             Inl e \<Rightarrow> Inl e
           | Inr j' \<Rightarrow>
               (case norm_index (length (arr ! i' ! j')) k of
                  Inl e \<Rightarrow> Inl e
                | Inr k' \<Rightarrow> Inr (arr[i' := (arr ! i')[j' := (arr ! i' ! j')[k' := v]]]))))"

definition bins :: "rat list" where
  "bins = map (\<lambda>k. rat_of_nat k * (5 / 100)) [0..<21]"

definition bucketize :: "rat \<Rightarrow> rat list \<Rightarrow> nat" where
  "bucketize v boundaries = length (takeWhile (\<lambda>b. b < v) boundaries)"

fun bin_xl_loop :: "(rat \<times> rat \<times> rat) list \<Rightarrow> nat list list list \<Rightarrow> error + nat list list list" where
  "bin_xl_loop [] output = Inr output"
| "bin_xl_loop ((r1, r2, fdr) # xl) output =
     (let r1' = py_int r1;
          r2' = py_int r2;
          v = bucketize (1 - fdr) bins
      in case setitem3 output r1' r2' 0 v of
           Inl e \<Rightarrow> Inl e
         | Inr output1 \<Rightarrow>
             (case setitem3 output1 r2' r1' 0 v of
                Inl e \<Rightarrow> Inl e
              | Inr output2 \<Rightarrow> bin_xl_loop xl output2))"

definition bin_xl :: "nat list \<Rightarrow> (rat \<times> rat \<times> rat) list \<Rightarrow> nat \<Rightarrow> error + nat list list list" where
  "bin_xl randperm xl num_res =
     bin_xl_loop (map (\<lambda>k. xl ! k) randperm) (zeros3 num_res num_res 1)"


text \<open>
  Notions to state what \<open>bin_xl\<close> returns: the cell \<open>output[i, j, 0]\<close>; the array being dense of
  shape \<open>n \<times> n \<times> 1\<close>; an entry writing to cell \<open>(i, j)\<close> (it writes to both orders of its pair,
  with negative indices wrapped); the bin the entry writes; the entry's indices being in
  range; and the effect of one loop iteration on the array.
\<close>

definition cell :: "'a list list list \<Rightarrow> nat \<Rightarrow> nat \<Rightarrow> 'a" where
  "cell arr i j = arr ! i ! j ! 0"

definition dense3 :: "nat \<Rightarrow> 'a list list list \<Rightarrow> bool" where
  "dense3 n arr =
     (length arr = n \<and> list_all (\<lambda>row. length row = n \<and> list_all (\<lambda>c. length c = 1) row) arr)"

fun writes :: "nat \<Rightarrow> rat \<times> rat \<times> rat \<Rightarrow> nat \<Rightarrow> nat \<Rightarrow> bool" where
  "writes n (r1, r2, fdr) i j =
     ((norm_index n (py_int r1) = Inr i \<and> norm_index n (py_int r2) = Inr j) \<or>
      (norm_index n (py_int r1) = Inr j \<and> norm_index n (py_int r2) = Inr i))"

fun bucket :: "rat \<times> rat \<times> rat \<Rightarrow> nat" where
  "bucket (r1, r2, fdr) = bucketize (1 - fdr) bins"

fun in_range :: "nat \<Rightarrow> rat \<times> rat \<times> rat \<Rightarrow> bool" where
  "in_range n (r1, r2, fdr) =
     (\<not> isl (norm_index n (py_int r1)) \<and> \<not> isl (norm_index n (py_int r2)))"

definition step_ok ::
  "nat \<Rightarrow> nat list list list \<Rightarrow> rat \<times> rat \<times> rat \<Rightarrow> nat list list list \<Rightarrow> bool" where
  "step_ok n arr entry arr' =
     (dense3 n arr' \<and>
      (\<forall>a<n. \<forall>b<n. cell arr' a b = (if writes n entry a b then bucket entry else cell arr a b)))"

text \<open>Two cross-links on the same pair of residues, in both orders.\<close>

definition example_xl :: "(rat \<times> rat \<times> rat) list" where
  "example_xl = [(0, 1, 1 / 10), (1, 0, 1 / 2)]"

section \<open>\<open>process_label\<close>\<close>

text \<open>
  \<^verbatim>\<open>
  if operation == "I":
      return all_atom_positions
  rot, trans = operation
  rot = np.array(rot).reshape(3, 3)
  trans = np.array(trans).reshape(3)
  return all_atom_positions @ rot.T + trans
  \<close>
  The coordinates have shape residues \<open>\<times>\<close> atoms \<open>\<times> 3\<close>: a list, per residue, of the atoms'
  three coordinates. An operation is a string or a pair of a rotation and a translation,
  each given by its entries in row-major order; \<open>reshape\<close> raises \<open>ValueError\<close> unless there
  are nine and three of them. A string other than \<open>"I"\<close> cannot be unpacked into such a pair,
  which is a \<open>ValueError\<close> too. The matrix product acts on the last axis and the translation
  is broadcast over the others. The numbers are elements of a commutative ring: NumPy's
  floating-point arithmetic is taken to be exact.
\<close>

type_synonym 'a vec3 = "'a \<times> 'a \<times> 'a"
type_synonym 'a mat33 = "'a vec3 \<times> 'a vec3 \<times> 'a vec3"
type_synonym 'a positions = "'a vec3 list list"

datatype 'a operation = OpStr string | OpPair "'a list" "'a list"

fun reshape_3_3 :: "'a list \<Rightarrow> error + 'a mat33" where
  "reshape_3_3 [a, b, c, d, e, f, g, h, i] = Inr ((a, b, c), (d, e, f), (g, h, i))"
| "reshape_3_3 _ = Inl ValueError"

fun reshape_3 :: "'a list \<Rightarrow> error + 'a vec3" where
  "reshape_3 [a, b, c] = Inr (a, b, c)"
| "reshape_3 _ = Inl ValueError"

fun transpose_3_3 :: "'a mat33 \<Rightarrow> 'a mat33" where
  "transpose_3_3 ((a, b, c), (d, e, f), (g, h, i)) = ((a, d, g), (b, e, h), (c, f, i))"

fun vec_matmul :: "'a::comm_ring_1 vec3 \<Rightarrow> 'a mat33 \<Rightarrow> 'a vec3" where
  "vec_matmul (x, y, z) ((a, b, c), (d, e, f), (g, h, i)) =
     (x * a + y * d + z * g, x * b + y * e + z * h, x * c + y * f + z * i)"

fun vec_add :: "'a::comm_ring_1 vec3 \<Rightarrow> 'a vec3 \<Rightarrow> 'a vec3" where
  "vec_add (x, y, z) (a, b, c) = (x + a, y + b, z + c)"

definition process_label ::
  "'a::comm_ring_1 positions \<Rightarrow> 'a operation \<Rightarrow> error + 'a positions" where
  "process_label all_atom_positions operation =
     (case operation of
        OpStr s \<Rightarrow> if s = ''I'' then Inr all_atom_positions else Inl ValueError
      | OpPair rot trans0 \<Rightarrow>
          (case reshape_3_3 rot of
             Inl e \<Rightarrow> Inl e
           | Inr rot' \<Rightarrow>
               (case reshape_3 trans0 of
                  Inl e \<Rightarrow> Inl e
                | Inr trans' \<Rightarrow>
                    Inr (map (map (\<lambda>x. vec_add (vec_matmul x (transpose_3_3 rot')) trans'))
                           all_atom_positions))))"

text \<open>
  To state the round trip: the matrix (nine entries, row-major) has orthonormal columns,
  \<open>R\<^sup>T R = 1\<close>, as every rotation has; and the inverse of the operation \<open>(R, t)\<close> is
  \<open>(R\<^sup>T, - t R)\<close>.
\<close>

fun orthogonal :: "'a::comm_ring_1 list \<Rightarrow> bool" where
  "orthogonal [a, b, c, d, e, f, g, h, i] =
     (a * a + d * d + g * g = 1 \<and> a * b + d * e + g * h = 0 \<and> a * c + d * f + g * i = 0 \<and>
      b * a + e * d + h * g = 0 \<and> b * b + e * e + h * h = 1 \<and> b * c + e * f + h * i = 0 \<and>
      c * a + f * d + i * g = 0 \<and> c * b + f * e + i * h = 0 \<and> c * c + f * f + i * i = 1)"
| "orthogonal _ = False"

fun inverse_operation :: "'a::comm_ring_1 list \<Rightarrow> 'a list \<Rightarrow> 'a operation" where
  "inverse_operation [a, b, c, d, e, f, g, h, i] [t0, t1, t2] =
     OpPair [a, d, g, b, e, h, c, f, i]
            [- (t0 * a + t1 * d + t2 * g), - (t0 * b + t1 * e + t2 * h), - (t0 * c + t1 * f + t2 * i)]"
| "inverse_operation rot trans0 = OpPair rot trans0"

text \<open>Coordinates of two residues, to run the transform on.\<close>

definition example_positions :: "rat positions" where
  "example_positions = [[(1, 0, 0), (0, 1, 0)], [(1, 2, 3)]]"

section \<open>NumPy values, files and the feature cache\<close>

text \<open>
  An array is a scalar or a list of arrays along its first axis. The values stored in the
  feature and label dicts are coordinate arrays (residues \<open>\<times>\<close> atoms \<open>\<times> 3\<close>, the arrays the
  symmetry transform applies to) or other arrays; Python numbers are scalars.
\<close>

datatype 'a ndarray = Scalar 'a | Array "'a ndarray list"

datatype npval = Positions "rat positions" | Nd "rat ndarray"

type_synonym npdict = "(string, npval) dict"

text \<open>The array a value stands for.\<close>

definition to_nd :: "npval \<Rightarrow> rat ndarray" where
  "to_nd v =
     (case v of
        Nd a \<Rightarrow> a
      | Positions p \<Rightarrow>
          Array (map (\<lambda>residue. Array (map (\<lambda>(x, y, z). Array [Scalar x, Scalar y, Scalar z]) residue)) p))"

text \<open>\<^verbatim>\<open>d[k]\<close> raises \<open>KeyError\<close> on a missing key; \<^verbatim>\<open>d.update(other)\<close> assigns item by item.\<close>

definition getitem :: "(string, 'v) dict \<Rightarrow> string \<Rightarrow> error + 'v" where
  "getitem d k = (case map_of d k of None \<Rightarrow> Inl (KeyError k) | Some v \<Rightarrow> Inr v)"

definition dict_update :: "('k, 'v) dict \<Rightarrow> ('k, 'v) dict \<Rightarrow> ('k, 'v) dict" where
  "dict_update d other = foldl (\<lambda>acc (k, v). AList.update k v acc) d other"

text \<open>\<open>os.path.join\<close> of two components.\<close>

definition path_join :: "string \<Rightarrow> string \<Rightarrow> string" where
  "path_join a b =
     (if b \<noteq> [] \<and> hd b = CHR ''/'' then b
      else if a = [] \<or> last a = CHR ''/'' then a @ b
      else a @ ''/'' @ b)"

text \<open>
  The state the loaders act on: the entries of the feature cache, most recently used first,
  and the paths of the files opened so far. A cache key is the argument tuple of
  \<open>load_single_feature\<close>.
\<close>

type_synonym feature_key = "string \<times> string \<times> string option \<times> bool"

record io =
  cache :: "(feature_key \<times> npdict) list"
  reads :: "string list"

text \<open>
  A computation that reads and changes a state and either raises or returns; an action is one
  on the state of the loaders. \<open>bind\<close> sequences two computations, stopping at the first
  exception; \<open>for_each\<close> is a list comprehension whose element expression is such a
  computation, \<open>try_e\<close> and \<open>for_each_e\<close> are their counterparts without state.
\<close>

type_synonym ('s, 'a) run = "'s \<Rightarrow> (error + 'a) \<times> 's"

type_synonym 'a action = "(io, 'a) run"

definition return :: "'a \<Rightarrow> ('s, 'a) run" where
  "return x s = (Inr x, s)"

definition raise :: "error \<Rightarrow> ('s, 'a) run" where
  "raise e s = (Inl e, s)"

definition lift :: "error + 'a \<Rightarrow> ('s, 'a) run" where
  "lift r s = (r, s)"

definition bind :: "('s, 'a) run \<Rightarrow> ('a \<Rightarrow> ('s, 'b) run) \<Rightarrow> ('s, 'b) run" where
  "bind m f s = (case m s of (Inl e, s') \<Rightarrow> (Inl e, s') | (Inr x, s') \<Rightarrow> f x s')"

fun for_each :: "('a \<Rightarrow> ('s, 'b) run) \<Rightarrow> 'a list \<Rightarrow> ('s, 'b list) run" where
  "for_each f [] = return []"
| "for_each f (x # xs) = bind (f x) (\<lambda>y. bind (for_each f xs) (\<lambda>ys. return (y # ys)))"

definition try_e :: "error + 'a \<Rightarrow> ('a \<Rightarrow> error + 'b) \<Rightarrow> error + 'b" where
  "try_e r f = (case r of Inl e \<Rightarrow> Inl e | Inr x \<Rightarrow> f x)"

fun for_each_e :: "('a \<Rightarrow> error + 'b) \<Rightarrow> 'a list \<Rightarrow> error + 'b list" where
  "for_each_e f [] = Inr []"
| "for_each_e f (x # xs) = try_e (f x) (\<lambda>y. try_e (for_each_e f xs) (\<lambda>ys. Inr (y # ys)))"

text \<open>
  Modelled from the spec: \<open>utils.load_pickle\<close> (in \<open>unifold/data/utils.py\<close>) reads the
  compressed serialized mapping stored at a path and fails with a lookup error if the
  backing file is absent. The files are a partial map from paths to their contents.
\<close>

definition load_pickle :: "(string \<rightharpoonup> npdict) \<Rightarrow> string \<Rightarrow> npdict action" where
  "load_pickle files path s =
     (case files path of None \<Rightarrow> Inl (FileNotFoundError path) | Some d \<Rightarrow> Inr d,
      s\<lparr>reads := reads s @ [path]\<rparr>)"

text \<open>
  Modelled from the spec: \<open>utils.lru_cache(maxsize=8, copy=True)\<close> (in
  \<open>unifold/data/utils.py\<close>) keeps at most \<open>maxsize\<close> results by argument tuple, evicts the
  least recently used one, and returns a copy on every call. A call that raises stores
  nothing.
\<close>

definition lru_cache :: "nat \<Rightarrow> (feature_key \<Rightarrow> npdict action) \<Rightarrow> feature_key \<Rightarrow> npdict action" where
  "lru_cache maxsize f key s =
     (case map_of (cache s) key of
        Some v \<Rightarrow> (Inr v, s\<lparr>cache := (key, v) # filter (\<lambda>(k, _). k \<noteq> key) (cache s)\<rparr>)
      | None \<Rightarrow>
          (case f key s of
             (Inl e, s') \<Rightarrow> (Inl e, s')
           | (Inr v, s') \<Rightarrow> (Inr v, s'\<lparr>cache := take maxsize ((key, v) # cache s')\<rparr>)))"

text \<open>
  The functions of \<open>unifold.data.process_multimer\<close> and \<open>unifold.data.utils\<close> that the loaders
  call are parameters; each may raise. \<open>post_process\<close> is called by \<open>load\<close> but is not among
  the names \<open>dataset.py\<close> imports: it stands for whatever the module binds to that name.
\<close>

record externals =
  convert_monomer_features :: "npdict \<Rightarrow> error + npdict"
  merge_msas :: "npval \<Rightarrow> npval \<Rightarrow> npval \<Rightarrow> npval \<Rightarrow> error + npval \<times> npval"
  convert_all_seq_feature :: "npdict \<Rightarrow> error + npdict"
  add_assembly_features :: "npdict list \<Rightarrow> error + npdict list"
  pair_and_merge :: "npdict list \<Rightarrow> error + npdict"
  post_process :: "npdict \<Rightarrow> error + npdict"

section \<open>\<open>load_single_feature\<close>\<close>

text \<open>
  \<^verbatim>\<open>
  monomer_feature = utils.load_pickle(os.path.join(monomer_feature_dir, f"{sequence_id}.feature.pkl.gz"))
  monomer_feature = convert_monomer_features(monomer_feature)
  chain_feature = {**monomer_feature}
  if uniprot_msa_dir is not None:
      all_seq_feature = utils.load_pickle(os.path.join(uniprot_msa_dir, f"{sequence_id}.uniprot.pkl.gz"))
      if is_monomer:
          chain_feature["msa"], chain_feature["deletion_matrix"] = merge_msas(
              chain_feature["msa"], chain_feature["deletion_matrix"],
              all_seq_feature["msa"], all_seq_feature["deletion_matrix"])
      else:
          all_seq_feature = utils.convert_all_seq_feature(all_seq_feature)
          for key in ["msa_all_seq", "msa_species_identifiers_all_seq", "deletion_matrix_all_seq"]:
              chain_feature[key] = all_seq_feature[key]
  return chain_feature
  \<close>
  The two branches on \<open>is_monomer\<close> are \<open>merge_monomer_msas\<close> and \<open>attach_all_seq\<close>.
\<close>

definition merge_monomer_msas :: "externals \<Rightarrow> npdict \<Rightarrow> npdict \<Rightarrow> error + npdict" where
  "merge_monomer_msas ext chain_feature all_seq_feature =
     try_e (getitem chain_feature ''msa'') (\<lambda>msa.
     try_e (getitem chain_feature ''deletion_matrix'') (\<lambda>deletion_matrix.
     try_e (getitem all_seq_feature ''msa'') (\<lambda>msa_all.
     try_e (getitem all_seq_feature ''deletion_matrix'') (\<lambda>deletion_matrix_all.
     try_e (merge_msas ext msa deletion_matrix msa_all deletion_matrix_all)
       (\<lambda>(msa', deletion_matrix').
          Inr (AList.update ''deletion_matrix'' deletion_matrix'
                 (AList.update ''msa'' msa' chain_feature)))))))"

definition attach_all_seq :: "externals \<Rightarrow> npdict \<Rightarrow> npdict \<Rightarrow> error + npdict" where
  "attach_all_seq ext chain_feature all_seq_feature =
     try_e (convert_all_seq_feature ext all_seq_feature) (\<lambda>all_seq_feature.
     try_e (getitem all_seq_feature ''msa_all_seq'') (\<lambda>v1.
     try_e (getitem all_seq_feature ''msa_species_identifiers_all_seq'') (\<lambda>v2.
     try_e (getitem all_seq_feature ''deletion_matrix_all_seq'') (\<lambda>v3.
       Inr (AList.update ''deletion_matrix_all_seq'' v3
              (AList.update ''msa_species_identifiers_all_seq'' v2
                 (AList.update ''msa_all_seq'' v1 chain_feature)))))))"

definition load_single_feature_body ::
  "(string \<rightharpoonup> npdict) \<Rightarrow> externals \<Rightarrow> feature_key \<Rightarrow> npdict action" where
  "load_single_feature_body files ext key =
     (case key of (sequence_id, monomer_feature_dir, uniprot_msa_dir, is_monomer) \<Rightarrow>
        bind (load_pickle files (path_join monomer_feature_dir (sequence_id @ ''.feature.pkl.gz'')))
          (\<lambda>monomer_feature.
        bind (lift (convert_monomer_features ext monomer_feature))
          (\<lambda>chain_feature.
             case uniprot_msa_dir of
               None \<Rightarrow> return chain_feature
             | Some dir \<Rightarrow>
                 bind (load_pickle files (path_join dir (sequence_id @ ''.uniprot.pkl.gz'')))
                   (\<lambda>all_seq_feature.
                      if is_monomer
                      then lift (merge_monomer_msas ext chain_feature all_seq_feature)
                      else lift (attach_all_seq ext chain_feature all_seq_feature)))))"

definition load_single_feature ::
  "(string \<rightharpoonup> npdict) \<Rightarrow> externals \<Rightarrow> string \<Rightarrow> string \<Rightarrow> string option \<Rightarrow> bool \<Rightarrow> npdict action" where
  "load_single_feature files ext sequence_id monomer_feature_dir uniprot_msa_dir is_monomer =
     lru_cache 8 (load_single_feature_body files ext)
       (sequence_id, monomer_feature_dir, uniprot_msa_dir, is_monomer)"

section \<open>\<open>load_single_label\<close>\<close>

text \<open>
  \<^verbatim>\<open>
  label = utils.load_pickle(os.path.join(label_dir, f"{label_id}.label.pkl.gz"))
  if symmetry_operation is not None:
      label["all_atom_positions"] = process_label(label["all_atom_positions"], symmetry_operation)
  label = {k: v for k, v in label.items()
           if k in ["aatype", "all_atom_positions", "all_atom_mask", "resolution"]}
  return label
  \<close>
  \<open>process_label\<close> returns any value unchanged under \<open>"I"\<close>; under another operation a value
  that is not a coordinate array does not have the shape the matrix product needs.
\<close>

definition process_label_value :: "npval \<Rightarrow> rat operation \<Rightarrow> error + npval" where
  "process_label_value v operation =
     (case v of
        Positions p \<Rightarrow> try_e (process_label p operation) (\<lambda>p'. Inr (Positions p'))
      | Nd a \<Rightarrow> if operation = OpStr ''I'' then Inr (Nd a) else Inl ValueError)"

definition label_keys :: "string list" where
  "label_keys = [''aatype'', ''all_atom_positions'', ''all_atom_mask'', ''resolution'']"

definition load_single_label ::
  "(string \<rightharpoonup> npdict) \<Rightarrow> string \<Rightarrow> string \<Rightarrow> rat operation option \<Rightarrow> npdict action" where
  "load_single_label files label_id label_dir symmetry_operation =
     bind (load_pickle files (path_join label_dir (label_id @ ''.label.pkl.gz'')))
       (\<lambda>label.
     bind (case symmetry_operation of
             None \<Rightarrow> return label
           | Some operation \<Rightarrow>
               lift (try_e (getitem label ''all_atom_positions'') (\<lambda>positions.
                     try_e (process_label_value positions operation) (\<lambda>positions'.
                       Inr (AList.update ''all_atom_positions'' positions' label)))))
       (\<lambda>label. return (filter (\<lambda>(k, v). k \<in> set label_keys) label)))"

section \<open>\<open>load\<close>\<close>

text \<open>
  \<^verbatim>\<open>
  all_chain_features = [load_single_feature(s, monomer_feature_dir, uniprot_msa_dir, is_monomer)
                        for s in sequence_ids]
  if label_ids is not None:
      assert len(label_ids) == len(sequence_ids)
      assert label_dir is not None
      if symmetry_operations is None:
          symmetry_operations = ["I" for _ in label_ids]
      all_chain_labels = [load_single_label(l, label_dir, o)
                          for l, o in zip(label_ids, symmetry_operations)]
      [f.update(l) for f, l in zip(all_chain_features, all_chain_labels)]
  all_chain_features = add_assembly_features(all_chain_features)
  if label_ids is not None:
      all_chain_labels = [{k: f[k] for k in ["aatype", "all_atom_positions", "all_atom_mask", "resolution"]}
                          for f in all_chain_features]
  else:
      all_chain_labels = None
  asym_len = np.array([c["seq_length"] for c in all_chain_features], dtype=np.int64)
  if is_monomer:
      all_chain_features = all_chain_features[0]
  else:
      all_chain_features = pair_and_merge(all_chain_features)
      all_chain_features = post_process(all_chain_features)
  all_chain_features["asym_len"] = asym_len
  return all_chain_features, all_chain_labels
  \<close>
  The two list comprehensions that load are \<open>load_chain_features\<close> and \<open>load_chain_labels\<close>;
  \<open>update_labels\<close> is the in-place update of the features by the labels zipped with them;
  \<open>finish_load\<close> is the part after it, which touches no file.
\<close>

definition load_chain_features ::
  "(string \<rightharpoonup> npdict) \<Rightarrow> externals \<Rightarrow> string list \<Rightarrow> string \<Rightarrow> string option \<Rightarrow> bool \<Rightarrow>
   npdict list action" where
  "load_chain_features files ext sequence_ids monomer_feature_dir uniprot_msa_dir is_monomer =
     for_each (\<lambda>s. load_single_feature files ext s monomer_feature_dir uniprot_msa_dir is_monomer)
       sequence_ids"

definition load_chain_labels ::
  "(string \<rightharpoonup> npdict) \<Rightarrow> string list \<Rightarrow> string \<Rightarrow> rat operation list \<Rightarrow> npdict list action" where
  "load_chain_labels files label_ids label_dir symmetry_operations =
     for_each (\<lambda>(l, oper). load_single_label files l label_dir (Some oper))
       (zip label_ids symmetry_operations)"

definition update_labels :: "npdict list \<Rightarrow> npdict list \<Rightarrow> npdict list" where
  "update_labels all_chain_features all_chain_labels =
     map (\<lambda>(f, l). dict_update f l) (zip all_chain_features all_chain_labels) @
     drop (length all_chain_labels) all_chain_features"

definition astype_int64 :: "rat ndarray \<Rightarrow> rat ndarray" where
  "astype_int64 a = map_ndarray (\<lambda>x. of_int (py_int x)) a"

definition finish_load ::
  "externals \<Rightarrow> bool \<Rightarrow> bool \<Rightarrow> npdict list \<Rightarrow> error + npdict \<times> npdict list option" where
  "finish_load ext with_labels is_monomer all_chain_features =
     try_e (add_assembly_features ext all_chain_features) (\<lambda>all_chain_features.
     try_e (if with_labels
            then try_e (for_each_e (\<lambda>f. for_each_e (\<lambda>k. try_e (getitem f k) (\<lambda>v. Inr (k, v)))
                                          label_keys) all_chain_features)
                   (\<lambda>ls. Inr (Some ls))
            else Inr None) (\<lambda>all_chain_labels.
     try_e (for_each_e (\<lambda>c. getitem c ''seq_length'') all_chain_features) (\<lambda>seq_lengths.
     let asym_len = Nd (astype_int64 (Array (map to_nd seq_lengths))) in
     try_e (if is_monomer
            then (case all_chain_features of [] \<Rightarrow> Inl IndexError | f # _ \<Rightarrow> Inr f)
            else try_e (pair_and_merge ext all_chain_features) (post_process ext))
       (\<lambda>all_chain_features.
          Inr (AList.update ''asym_len'' asym_len all_chain_features, all_chain_labels)))))"

definition load ::
  "(string \<rightharpoonup> npdict) \<Rightarrow> externals \<Rightarrow> string list \<Rightarrow> string \<Rightarrow> string option \<Rightarrow>
   string list option \<Rightarrow> string option \<Rightarrow> rat operation list option \<Rightarrow> bool \<Rightarrow>
   (npdict \<times> npdict list option) action" where
  "load files ext sequence_ids monomer_feature_dir uniprot_msa_dir label_ids label_dir
        symmetry_operations is_monomer =
     bind (load_chain_features files ext sequence_ids monomer_feature_dir uniprot_msa_dir is_monomer)
       (\<lambda>all_chain_features.
     bind (case label_ids of
             None \<Rightarrow> return all_chain_features
           | Some label_ids \<Rightarrow>
               if length label_ids \<noteq> length sequence_ids then raise (AssertionError '''')
               else
                 (case label_dir of
                    None \<Rightarrow> raise (AssertionError '''')
                  | Some label_dir \<Rightarrow>
                      let symmetry_operations =
                            (case symmetry_operations of
                               None \<Rightarrow> map (\<lambda>_. OpStr ''I'') label_ids
                             | Some ops \<Rightarrow> ops)
                      in bind (load_chain_labels files label_ids label_dir symmetry_operations)
                           (\<lambda>all_chain_labels.
                              return (update_labels all_chain_features all_chain_labels))))
       (\<lambda>all_chain_features.
          lift (finish_load ext (label_ids \<noteq> None) is_monomer all_chain_features)))"


text \<open>
  To state which files a call opens: a path names a feature file; the state \<open>s'\<close> extends the
  state \<open>s\<close> by opening only files of a given kind.
\<close>

definition feature_file :: "string \<Rightarrow> bool" where
  "feature_file path = (suffix ''.feature.pkl.gz'' path \<or> suffix ''.uniprot.pkl.gz'' path)"

definition reads_only :: "(string \<Rightarrow> bool) \<Rightarrow> io \<Rightarrow> io \<Rightarrow> bool" where
  "reads_only P s s' = (\<exists>new. reads s' = reads s @ new \<and> list_all P new)"

section \<open>Inputs to run \<open>load\<close> on\<close>

text \<open>
  Inputs to run the loaders on: external functions that return their argument, a file store
  with one feature file and one label file, an empty one, and the state before any call and
  after the feature of \<open>s1\<close> was loaded.
\<close>

definition identity_externals :: externals where
  "identity_externals =
     \<lparr>convert_monomer_features = Inr,
      merge_msas = (\<lambda>msa deletion_matrix msa_all deletion_matrix_all. Inr (msa, deletion_matrix)),
      convert_all_seq_feature = Inr,
      add_assembly_features = Inr,
      pair_and_merge = (\<lambda>fs. case fs of [] \<Rightarrow> Inl IndexError | f # _ \<Rightarrow> Inr f),
      post_process = Inr\<rparr>"

definition no_files :: "string \<rightharpoonup> npdict" where
  "no_files = Map.empty"

definition example_files :: "string \<rightharpoonup> npdict" where
  "example_files =
     map_of
       [(''features/s1.feature.pkl.gz'',
           [(''aatype'', Nd (Array [Scalar 0, Scalar 4])), (''seq_length'', Nd (Scalar 2))]),
        (''labels/l1.label.pkl.gz'',
           [(''aatype'', Nd (Array [Scalar 0, Scalar 4])),
            (''all_atom_positions'', Positions example_positions),
            (''all_atom_mask'', Nd (Array [Array [Scalar 1, Scalar 1], Array [Scalar 1]])),
            (''resolution'', Nd (Scalar 2)),
            (''release_date'', Nd (Scalar 2020))])]"

definition fresh :: io where
  "fresh = \<lparr>cache = [], reads = []\<rparr>"

definition example_feature :: npdict where
  "example_feature = [(''aatype'', Nd (Array [Scalar 0, Scalar 4])), (''seq_length'', Nd (Scalar 2))]"

definition after_features :: io where
  "after_features =
     \<lparr>cache = [((''s1'', ''features'', None, True), example_feature)],
      reads = [''features/s1.feature.pkl.gz'']\<rparr>"

section \<open>The NumPy random generator\<close>

text \<open>
  The global generator of \<open>np.random\<close> is a state of some type \<open>'g\<close>; what the library
  computes from it is a parameter: the state a seed sets, the mixing of a seed with
  additional seeds and a key, and the draws used here, each returning its value and the next
  state. \<open>randint\<close> and \<open>choice\<close> may raise (an empty range, probabilities that do not sum
  to one).
\<close>

record 'g np_random =
  seed_state :: "int \<Rightarrow> 'g"
  hash_seed :: "int \<Rightarrow> int option list \<Rightarrow> string \<Rightarrow> int"
  randint :: "int \<Rightarrow> int \<Rightarrow> 'g \<Rightarrow> (error + int) \<times> 'g"
  rand :: "'g \<Rightarrow> rat \<times> 'g"
  choice :: "nat \<Rightarrow> rat list option \<Rightarrow> 'g \<Rightarrow> (error + nat) \<times> 'g"

text \<open>
  Modelled from the spec: \<open>data_utils.numpy_seed(seed, *addl_seeds, key=...)\<close> (of the
  \<open>unicore\<close> library) is the scoped-seed mechanism: it saves the global random generator
  state, seeds the generator deterministically from the seed, the additional seeds and the
  key, runs the body, and restores the saved state afterwards, also when the body raises.
\<close>

definition numpy_seed ::
  "'g np_random \<Rightarrow> int \<Rightarrow> int option list \<Rightarrow> string \<Rightarrow> ('g, 'a) run \<Rightarrow> ('g, 'a) run" where
  "numpy_seed rng seed addl_seeds key body g =
     (let state = g;
          (result, _) = body (seed_state rng (hash_seed rng seed addl_seeds key))
      in (result, state))"

text \<open>\<^verbatim>\<open>xs[i]\<close> for an index that is not negative.\<close>

definition list_get :: "'a list \<Rightarrow> nat \<Rightarrow> error + 'a" where
  "list_get xs i = (if i < length xs then Inr (xs ! i) else Inl IndexError)"

section \<open>\<open>UnifoldDataset\<close>\<close>

text \<open>
  The JSON side files by path and kind: sample weights (id to weight), multi-label maps
  (sequence id to label ids) and assembly maps. \<open>json.load(open(filename))\<close> fails with
  \<open>FileNotFoundError\<close> on a missing file. The fields of \<open>args\<close> the datasets read, and the
  attributes \<open>__init__\<close> sets on \<open>self\<close>; the three self-distillation attributes and the three
  sampling attributes for it exist only when the self-distillation table was loaded.
\<close>

record json_files =
  weight_files :: "string \<rightharpoonup> (string, rat) dict"
  multi_label_files :: "string \<rightharpoonup> (string, string list) dict"
  assembly_files :: "string \<rightharpoonup> (string, rat operation assembly) dict"

record args =
  args_batch_size :: int
  args_update_freq :: "int list"
  args_sd_prob :: rat
  args_max_chains :: int

record 'c dataset =
  self_path :: string
  self_multi_label :: "(string, string list) dict"
  self_inverse_multi_label :: "(string, string) dict"
  self_sample_weight :: "(string, rat) dict"
  self_seq_sample_weight :: "(string, rat) dict"
  self_feature_path :: string
  self_label_path :: string
  self_sd_sample_weight :: "(string, rat) dict option"
  self_sd_feature_path :: "string option"
  self_sd_label_path :: "string option"
  self_batch_size :: int
  self_data_len :: int
  self_mode :: string
  self_num_seq :: nat
  self_seq_keys :: "string list"
  self_seq_sample_prob :: "rat list"
  self_num_chain :: nat
  self_chain_keys :: "string list"
  self_sample_prob :: "rat list"
  self_sd_num_chain :: "nat option"
  self_sd_chain_keys :: "string list option"
  self_sd_sample_prob :: "rat list option"
  self_config :: 'c
  self_seed :: int
  self_sd_prob :: rat

definition load_json :: "(string \<rightharpoonup> 'a) \<Rightarrow> string \<Rightarrow> error + 'a" where
  "load_json files filename =
     (case files filename of None \<Rightarrow> Inl (FileNotFoundError filename) | Some v \<Rightarrow> Inr v)"

text \<open>
  \<^verbatim>\<open>
  prot_keys = list(sample_weight.keys())
  sum_weight = sum(sample_weight.values())
  sample_prob = [sample_weight[k] / sum_weight for k in prot_keys]
  num_prot = len(prot_keys)
  return num_prot, prot_keys, sample_prob
  \<close>
  The division raises when there is a key and the weights sum to zero.
\<close>

definition cal_sample_weight :: "(string, rat) dict \<Rightarrow> error + nat \<times> string list \<times> rat list" where
  "cal_sample_weight sample_weight =
     (let prot_keys = keys sample_weight;
          sum_weight = sum_list (map snd sample_weight)
      in if prot_keys \<noteq> [] \<and> sum_weight = 0 then Inl ZeroDivisionError
         else Inr (length prot_keys, prot_keys, map (\<lambda>(k, w). w / sum_weight) sample_weight))"

text \<open>
  \<^verbatim>\<open>
  self.path = data_path
  disable_sd = True
  sample_weight = load_json(os.path.join(self.path, json_prefix + mode + "_sample_weight.json"))
  self.multi_label = load_json(os.path.join(self.path, json_prefix + mode + "_multi_label.json"))
  self.inverse_multi_label = self._inverse_map(self.multi_label)
  self.sample_weight = {}
  for chain in self.inverse_multi_label:
      entity = self.inverse_multi_label[chain]
      self.sample_weight[chain] = sample_weight[entity]
  self.seq_sample_weight = sample_weight
  self.feature_path = os.path.join(self.path, "pdb_features")
  self.label_path = os.path.join(self.path, "pdb_labels")
  sd_sample_weight_path = os.path.join(self.path, json_prefix + "sd_train_sample_weight.json")
  if mode == "train" and os.path.isfile(sd_sample_weight_path) and not disable_sd:
      self.sd_sample_weight = load_json(sd_sample_weight_path)
      self.sd_feature_path = os.path.join(self.path, "sd_features")
      self.sd_label_path = os.path.join(self.path, "sd_labels")
  else:
      self.sd_sample_weight = None
  self.batch_size = (args.batch_size * distributed_utils.get_data_parallel_world_size()
                     * args.update_freq[0])
  self.data_len = (max_step * self.batch_size if max_step is not None else len(self.sample_weight))
  self.mode = mode
  self.num_seq, self.seq_keys, self.seq_sample_prob = self.cal_sample_weight(self.seq_sample_weight)
  self.num_chain, self.chain_keys, self.sample_prob = self.cal_sample_weight(self.sample_weight)
  if self.sd_sample_weight is not None:
      (self.sd_num_chain, self.sd_chain_keys, self.sd_sample_prob,
      ) = self.cal_sample_weight(self.sd_sample_weight)
  self.config = config.data
  self.seed = seed
  self.sd_prob = args.sd_prob
  \<close>
  The loop that fills \<open>self.sample_weight\<close> is \<open>chain_sample_weight\<close>. The world size of the
  distributed run is an argument. The assignment \<open>disable_sd = True\<close> shadows the parameter.
\<close>

definition chain_sample_weight ::
  "(string, string) dict \<Rightarrow> (string, rat) dict \<Rightarrow> error + (string, rat) dict" where
  "chain_sample_weight inverse_multi_label sample_weight =
     for_each_e (\<lambda>(chain, entity). try_e (getitem sample_weight entity) (\<lambda>w. Inr (chain, w)))
       inverse_multi_label"

definition init ::
  "json_files \<Rightarrow> int \<Rightarrow> args \<Rightarrow> int \<Rightarrow> 'c \<Rightarrow> string \<Rightarrow> string \<Rightarrow> int option \<Rightarrow> bool \<Rightarrow> string \<Rightarrow>
   error + 'c dataset" where
  "init files world_size args seed config_data data_path mode max_step disable_sd json_prefix =
     (let disable_sd = True in
      try_e (load_json (weight_files files)
               (path_join data_path (json_prefix @ mode @ ''_sample_weight.json'')))
        (\<lambda>sample_weight_json.
      try_e (load_json (multi_label_files files)
               (path_join data_path (json_prefix @ mode @ ''_multi_label.json'')))
        (\<lambda>multi_label.
      try_e (inverse_map multi_label) (\<lambda>inverse_multi_label.
      try_e (chain_sample_weight inverse_multi_label sample_weight_json) (\<lambda>sample_weight.
      let sd_sample_weight_path = path_join data_path (json_prefix @ ''sd_train_sample_weight.json'')
      in
      try_e (if mode = ''train'' \<and> weight_files files sd_sample_weight_path \<noteq> None \<and> \<not> disable_sd
             then try_e (load_json (weight_files files) sd_sample_weight_path) (\<lambda>sd.
                    Inr (Some sd, Some (path_join data_path ''sd_features''),
                         Some (path_join data_path ''sd_labels'')))
             else Inr (None, None, None))
        (\<lambda>(sd_sample_weight, sd_feature_path, sd_label_path).
      try_e (list_get (args_update_freq args) 0) (\<lambda>update_freq_0.
      let batch_size = args_batch_size args * world_size * update_freq_0;
          data_len = (case max_step of
                        Some max_step \<Rightarrow> max_step * batch_size
                      | None \<Rightarrow> int (length sample_weight))
      in
      try_e (cal_sample_weight sample_weight_json) (\<lambda>(num_seq, seq_keys, seq_sample_prob).
      try_e (cal_sample_weight sample_weight) (\<lambda>(num_chain, chain_keys, sample_prob).
      try_e (case sd_sample_weight of
               None \<Rightarrow> Inr (None, None, None)
             | Some sd \<Rightarrow>
                 try_e (cal_sample_weight sd) (\<lambda>(n, ks, ps). Inr (Some n, Some ks, Some ps)))
        (\<lambda>(sd_num_chain, sd_chain_keys, sd_sample_prob).
      Inr \<lparr>self_path = data_path,
           self_multi_label = multi_label,
           self_inverse_multi_label = inverse_multi_label,
           self_sample_weight = sample_weight,
           self_seq_sample_weight = sample_weight_json,
           self_feature_path = path_join data_path ''pdb_features'',
           self_label_path = path_join data_path ''pdb_labels'',
           self_sd_sample_weight = sd_sample_weight,
           self_sd_feature_path = sd_feature_path,
           self_sd_label_path = sd_label_path,
           self_batch_size = batch_size,
           self_data_len = data_len,
           self_mode = mode,
           self_num_seq = num_seq,
           self_seq_keys = seq_keys,
           self_seq_sample_prob = seq_sample_prob,
           self_num_chain = num_chain,
           self_chain_keys = chain_keys,
           self_sample_prob = sample_prob,
           self_sd_num_chain = sd_num_chain,
           self_sd_chain_keys = sd_chain_keys,
           self_sd_sample_prob = sd_sample_prob,
           self_config = config_data,
           self_seed = seed,
           self_sd_prob = args_sd_prob args\<rparr>))))))))))"


text \<open>
  \<^verbatim>\<open>
  is_distillation = False
  if self.mode == "train":
      with data_utils.numpy_seed(self.seed, idx, key="data_sample"):
          is_distillation = ((np.random.rand(1)[0] < self.sd_prob)
                             if self.sd_sample_weight is not None else False)
          if is_distillation:
              prot_idx = np.random.choice(self.sd_num_chain, p=self.sd_sample_prob)
              label_name = self.sd_chain_keys[prot_idx]
              seq_name = label_name
          else:
              if not sample_by_seq:
                  prot_idx = np.random.choice(self.num_chain, p=self.sample_prob)
                  label_name = self.chain_keys[prot_idx]
                  seq_name = self.inverse_multi_label[label_name]
              else:
                  seq_idx = np.random.choice(self.num_seq, p=self.seq_sample_prob)
                  seq_name = self.seq_keys[seq_idx]
                  label_name = np.random.choice(self.multi_label[seq_name])
  else:
      label_name = self.chain_keys[idx]
      seq_name = self.inverse_multi_label[label_name]
  return seq_name, label_name, is_distillation
  \<close>
\<close>

definition sample_chain ::
  "'g np_random \<Rightarrow> 'c dataset \<Rightarrow> int \<Rightarrow> bool \<Rightarrow> ('g, string \<times> string \<times> bool) run" where
  "sample_chain rng self idx sample_by_seq =
     (if self_mode self = ''train'' then
        numpy_seed rng (self_seed self) [Some idx] ''data_sample''
          (bind (case self_sd_sample_weight self of
                   Some _ \<Rightarrow> (\<lambda>g. let (r, g') = rand rng g in (Inr (r < self_sd_prob self), g'))
                 | None \<Rightarrow> return False)
             (\<lambda>is_distillation.
                if is_distillation then
                  bind (lift (case (self_sd_num_chain self, self_sd_sample_prob self,
                                    self_sd_chain_keys self) of
                                (Some n, Some p, Some ks) \<Rightarrow> Inr (n, p, ks)
                              | _ \<Rightarrow> Inl (AttributeError ''sd_num_chain'')))
                    (\<lambda>(sd_num_chain, sd_sample_prob, sd_chain_keys).
                  bind (choice rng sd_num_chain (Some sd_sample_prob)) (\<lambda>prot_idx.
                  bind (lift (list_get sd_chain_keys prot_idx)) (\<lambda>label_name.
                  return (label_name, label_name, is_distillation))))
                else if \<not> sample_by_seq then
                  bind (choice rng (self_num_chain self) (Some (self_sample_prob self))) (\<lambda>prot_idx.
                  bind (lift (list_get (self_chain_keys self) prot_idx)) (\<lambda>label_name.
                  bind (lift (getitem (self_inverse_multi_label self) label_name)) (\<lambda>seq_name.
                  return (seq_name, label_name, is_distillation))))
                else
                  bind (choice rng (self_num_seq self) (Some (self_seq_sample_prob self))) (\<lambda>seq_idx.
                  bind (lift (list_get (self_seq_keys self) seq_idx)) (\<lambda>seq_name.
                  bind (lift (getitem (self_multi_label self) seq_name)) (\<lambda>labels.
                  bind (choice rng (length labels) None) (\<lambda>i.
                  bind (lift (list_get labels i)) (\<lambda>label_name.
                  return (seq_name, label_name, is_distillation))))))))
      else
        bind (lift (norm_index (length (self_chain_keys self)) idx)) (\<lambda>i.
        bind (lift (getitem (self_inverse_multi_label self) (self_chain_keys self ! i))) (\<lambda>seq_name.
        return (seq_name, self_chain_keys self ! i, False))))"

section \<open>Inputs to run the dataset on\<close>

text \<open>
  A generator, files, arguments and the dataset built from them, to run the dataset on: the
  self-distillation weight file exists and the probability of self-distillation is one.
\<close>

definition lcg_next :: "int \<Rightarrow> int" where
  "lcg_next g = (1103515245 * g + 12345) mod 2147483648"

definition lcg :: "int np_random" where
  "lcg =
     \<lparr>seed_state = (\<lambda>n. n mod 2147483648),
      hash_seed = (\<lambda>seed addl_seeds key.
        seed + sum_list (map (\<lambda>a. case a of None \<Rightarrow> 0 | Some n \<Rightarrow> 31 * n) addl_seeds) +
        int (length key)),
      randint = (\<lambda>low high g.
        (if low < high then Inr (low + g mod (high - low)) else Inl ValueError, lcg_next g)),
      rand = (\<lambda>g. (of_int (g mod 1000) / 1000, lcg_next g)),
      choice = (\<lambda>n p g. (if n = 0 then Inl ValueError else Inr (nat (g mod int n)), lcg_next g))\<rparr>"

definition example_json :: json_files where
  "example_json =
     \<lparr>weight_files =
        map_of [(''data/train_sample_weight.json'', [(''seqA'', 1), (''seqB'', 3)]),
                (''data/sd_train_sample_weight.json'', [(''sd1'', 1)])],
      multi_label_files =
        map_of [(''data/train_multi_label.json'',
                 [(''seqA'', [''1abc_A'', ''1abc_B'']), (''seqB'', [''2xyz_A''])])],
      assembly_files = Map.empty\<rparr>"

definition example_args :: args where
  "example_args =
     \<lparr>args_batch_size = 2, args_update_freq = [1], args_sd_prob = 1, args_max_chains = 2\<rparr>"

definition example_dataset :: "unit dataset" where
  "example_dataset =
     \<lparr>self_path = ''data'',
      self_multi_label = [(''seqA'', [''1abc_A'', ''1abc_B'']), (''seqB'', [''2xyz_A''])],
      self_inverse_multi_label =
        [(''1abc_A'', ''seqA''), (''1abc_B'', ''seqA''), (''2xyz_A'', ''seqB'')],
      self_sample_weight = [(''1abc_A'', 1), (''1abc_B'', 1), (''2xyz_A'', 3)],
      self_seq_sample_weight = [(''seqA'', 1), (''seqB'', 3)],
      self_feature_path = ''data/pdb_features'',
      self_label_path = ''data/pdb_labels'',
      self_sd_sample_weight = None,
      self_sd_feature_path = None,
      self_sd_label_path = None,
      self_batch_size = 2,
      self_data_len = 3,
      self_mode = ''train'',
      self_num_seq = 2,
      self_seq_keys = [''seqA'', ''seqB''],
      self_seq_sample_prob = [1 / 4, 3 / 4],
      self_num_chain = 3,
      self_chain_keys = [''1abc_A'', ''1abc_B'', ''2xyz_A''],
      self_sample_prob = [1 / 5, 1 / 5, 3 / 5],
      self_sd_num_chain = None,
      self_sd_chain_keys = None,
      self_sd_sample_prob = None,
      self_config = (),
      self_seed = 7,
      self_sd_prob = 1\<rparr>"

section \<open>Tensors\<close>

text \<open>
  A tensor of \<open>torch\<close> is an array as well. \<open>shape\<close> reads the lengths along the first
  elements; \<open>flatten\<close> lists the entries in order; \<open>item\<close> is the single entry of an array
  that has one (what \<open>int(...)\<close> of an array needs); \<open>reshape(-1)\<close> and \<open>unsqueeze(..., 0)\<close>;
  \<open>torch.tensor\<close> of a dense three-axis array of bin numbers; and a Python integer as a
  value.
\<close>

type_synonym tensor = "rat ndarray"
type_synonym torchdict = "(string, tensor) dict"

fun shape :: "'a ndarray \<Rightarrow> nat list" where
  "shape (Scalar x) = []"
| "shape (Array []) = [0]"
| "shape (Array (a # as)) = Suc (length as) # shape a"

fun flatten :: "'a ndarray \<Rightarrow> 'a list" where
  "flatten (Scalar x) = [x]"
| "flatten (Array as) = concat (map flatten as)"

fun item :: "'a ndarray \<Rightarrow> error + 'a" where
  "item (Scalar x) = Inr x"
| "item (Array [a]) = item a"
| "item (Array as) = Inl TypeError"

definition reshape_flat :: "'a ndarray \<Rightarrow> 'a ndarray" where
  "reshape_flat a = Array (map Scalar (flatten a))"

definition unsqueeze_0 :: "'a ndarray \<Rightarrow> 'a ndarray" where
  "unsqueeze_0 a = Array [a]"

definition tensor_3 :: "nat list list list \<Rightarrow> tensor" where
  "tensor_3 arr = Array (map (\<lambda>row. Array (map (\<lambda>c. Array (map (\<lambda>v. Scalar (of_nat v)) c)) row)) arr)"

definition py_int_of :: "npval \<Rightarrow> error + int" where
  "py_int_of v = try_e (item (to_nd v)) (\<lambda>x. Inr (py_int x))"

definition num :: "int \<Rightarrow> npval" where
  "num n = Nd (Scalar (of_int n))"

section \<open>\<open>make_data_config\<close>\<close>

text \<open>
  \<^verbatim>\<open>
  cfg = copy.deepcopy(config)
  mode_cfg = cfg[mode]
  with cfg.unlocked():
      if mode_cfg.crop_size is None:
          mode_cfg.crop_size = num_res
  feature_names = cfg.common.unsupervised_features + cfg.common.recycling_features
  if cfg.common.use_templates:
      feature_names += cfg.common.template_features
  if cfg.common.is_multimer:
      feature_names += cfg.common.multimer_features
  if cfg[mode].supervised:
      feature_names += cfg.supervised.supervised_features
  return cfg, feature_names
  \<close>
  The configuration holds the fields the source reads: the common part, one part per mode
  (\<open>config[mode]\<close> raises on an unknown mode) and the supervised feature names.
  \<open>use_template\<close> is the field \<open>process_ap\<close> sets.
\<close>

record common_config =
  unsupervised_features :: "string list"
  recycling_features :: "string list"
  template_features :: "string list"
  multimer_features :: "string list"
  use_templates :: bool
  is_multimer :: bool
  max_recycling_iters :: int
  use_template :: "bool option"

record mode_config =
  crop_size :: "int option"
  supervised :: bool
  use_clamped_fape_prob :: rat

record data_config =
  common :: common_config
  by_mode :: "(string, mode_config) dict"
  supervised_features :: "string list"

definition make_data_config :: "data_config \<Rightarrow> string \<Rightarrow> int \<Rightarrow> error + data_config \<times> string list" where
  "make_data_config config mode num_res =
     try_e (getitem (by_mode config) mode) (\<lambda>mode_cfg.
     let mode_cfg = (if crop_size mode_cfg = None then mode_cfg\<lparr>crop_size := Some num_res\<rparr>
                     else mode_cfg);
         cfg = config\<lparr>by_mode := AList.update mode mode_cfg (by_mode config)\<rparr>;
         feature_names = unsupervised_features (common cfg) @ recycling_features (common cfg);
         feature_names = (if use_templates (common cfg)
                          then feature_names @ template_features (common cfg) else feature_names);
         feature_names = (if is_multimer (common cfg)
                          then feature_names @ multimer_features (common cfg) else feature_names);
         feature_names = (if supervised mode_cfg
                          then feature_names @ supervised_features cfg else feature_names)
     in Inr (cfg, feature_names))"

section \<open>\<open>process\<close>\<close>

text \<open>
  The external feature and label processors are parameters. \<open>process_features\<close> runs inside
  the scope of the second seed and may draw from the generator. \<open>torch.tensor\<close> is applied
  to every value (\<open>to_tensors\<close>).
\<close>

record 'g processors =
  process_features :: "torchdict \<Rightarrow> common_config \<Rightarrow> mode_config \<Rightarrow> ('g, torchdict) run"
  process_labels :: "torchdict list \<Rightarrow> error + torchdict list"

text \<open>
  Modelled from the spec: \<open>utils.filter(features, desired_keys=...)\<close> (in
  \<open>unifold/data/utils.py\<close>) filters the feature record down to the recognized name set.
\<close>

definition filter_keys :: "('k, 'v) dict \<Rightarrow> 'k list \<Rightarrow> ('k, 'v) dict" where
  "filter_keys features desired_keys = filter (\<lambda>(k, v). k \<in> set desired_keys) features"

definition to_tensors :: "npdict \<Rightarrow> torchdict" where
  "to_tensors d = map (\<lambda>(k, v). (k, to_nd v)) d"

text \<open>
  \<^verbatim>\<open>
  if mode == "train":
      assert batch_idx is not None
      with data_utils.numpy_seed(seed, batch_idx, key="recycling"):
          num_iters = np.random.randint(0, config.common.max_recycling_iters + 1)
          use_clamped_fape = np.random.rand() < config[mode].use_clamped_fape_prob
  else:
      num_iters = config.common.max_recycling_iters
      use_clamped_fape = 1
  \<close>
  The start of \<open>process\<close> and of \<open>process_ap\<close>: it returns \<open>int(num_iters)\<close> and
  \<open>int(use_clamped_fape)\<close>.
\<close>

definition draw_rand :: "'g np_random \<Rightarrow> ('g, rat) run" where
  "draw_rand rng g = (let (r, g') = rand rng g in (Inr r, g'))"

definition recycling ::
  "'g np_random \<Rightarrow> data_config \<Rightarrow> string \<Rightarrow> int \<Rightarrow> int option \<Rightarrow> ('g, int \<times> int) run" where
  "recycling rng config mode seed batch_idx =
     (if mode = ''train'' then
        (case batch_idx of
           None \<Rightarrow> raise (AssertionError [])
         | Some batch_idx \<Rightarrow>
             numpy_seed rng seed [Some batch_idx] ''recycling''
               (bind (randint rng 0 (max_recycling_iters (common config) + 1)) (\<lambda>num_iters.
                bind (draw_rand rng) (\<lambda>r.
                bind (lift (getitem (by_mode config) mode)) (\<lambda>mode_cfg.
                return (num_iters, if r < use_clamped_fape_prob mode_cfg then 1 else 0))))))
      else return (max_recycling_iters (common config), 1))"

text \<open>
  \<^verbatim>\<open>
  features["num_recycling_iters"] = int(num_iters)
  features["use_clamped_fape"] = int(use_clamped_fape)
  features["is_distillation"] = int(is_distillation)
  if is_distillation and "msa_chains" in features:
      features.pop("msa_chains")
  num_res = int(features["seq_length"])
  cfg, feature_names = make_data_config(config, mode=mode, num_res=num_res)
  if labels is not None:
      features["resolution"] = labels[0]["resolution"].reshape(-1)
  with data_utils.numpy_seed(seed, data_idx, key="protein_feature"):
      features["crop_and_fix_size_seed"] = np.random.randint(0, 63355)
      features = utils.filter(features, desired_keys=feature_names)
      features = {k: torch.tensor(v) for k, v in features.items()}
      with torch.no_grad():
          features = process_features(features, cfg.common, cfg[mode])
  if labels is not None:
      labels = [{k: torch.tensor(v) for k, v in l.items()} for l in labels]
      with torch.no_grad():
          labels = process_labels(labels)
  return features, labels
  \<close>
\<close>

definition set_recycling :: "npdict \<Rightarrow> int \<times> int \<Rightarrow> bool \<Rightarrow> npdict" where
  "set_recycling features draws is_distillation =
     (let features = AList.update ''num_recycling_iters'' (num (fst draws)) features;
          features = AList.update ''use_clamped_fape'' (num (snd draws)) features;
          features = AList.update ''is_distillation'' (num (if is_distillation then 1 else 0)) features
      in if is_distillation \<and> ''msa_chains'' \<in> set (keys features)
         then AList.delete ''msa_chains'' features else features)"

definition set_resolution :: "npdict \<Rightarrow> npdict list option \<Rightarrow> error + npdict" where
  "set_resolution features labels =
     (case labels of
        None \<Rightarrow> Inr features
      | Some labels \<Rightarrow>
          try_e (list_get labels 0) (\<lambda>label.
          try_e (getitem label ''resolution'') (\<lambda>resolution.
          Inr (AList.update ''resolution'' (Nd (reshape_flat (to_nd resolution))) features))))"

definition convert_labels ::
  "'g processors \<Rightarrow> npdict list option \<Rightarrow> error + torchdict list option" where
  "convert_labels procs labels =
     (case labels of
        None \<Rightarrow> Inr None
      | Some labels \<Rightarrow> try_e (process_labels procs (map to_tensors labels)) (\<lambda>ls. Inr (Some ls)))"

definition process ::
  "'g np_random \<Rightarrow> 'g processors \<Rightarrow> data_config \<Rightarrow> string \<Rightarrow> npdict \<Rightarrow> npdict list option \<Rightarrow>
   int \<Rightarrow> int option \<Rightarrow> int option \<Rightarrow> bool \<Rightarrow> ('g, torchdict \<times> torchdict list option) run" where
  "process rng procs config mode features labels seed batch_idx data_idx is_distillation =
     bind (recycling rng config mode seed batch_idx) (\<lambda>draws.
     let features = set_recycling features draws is_distillation in
     bind (lift (try_e (getitem features ''seq_length'') py_int_of)) (\<lambda>num_res.
     bind (lift (make_data_config config mode num_res)) (\<lambda>(cfg, feature_names).
     bind (lift (set_resolution features labels)) (\<lambda>features.
     bind (numpy_seed rng seed [data_idx] ''protein_feature''
             (bind (randint rng 0 63355) (\<lambda>crop_and_fix_size_seed.
              let features = AList.update ''crop_and_fix_size_seed'' (num crop_and_fix_size_seed)
                               features;
                  features = filter_keys features feature_names;
                  features = to_tensors features
              in bind (lift (getitem (by_mode cfg) mode)) (\<lambda>mode_cfg.
                 process_features procs features (common cfg) mode_cfg)))) (\<lambda>features.
     bind (lift (convert_labels procs labels)) (\<lambda>labels.
     return (features, labels)))))))"


section \<open>Cross-link features\<close>

text \<open>
  \<^verbatim>\<open>
  descriptions = [kwargs['chain_id_map'][k].description for k in kwargs['chain_id_map']]
  results = []
  for i, chain1 in enumerate(descriptions):
      for j, chain2 in enumerate(descriptions):
          links = []
          if chain1 in xl_pickle:
              if chain2 in xl_pickle[chain1]:
                  for start,end,fdr in xl_pickle[chain1][chain2]:
                      start += offsets[i]
                      end += offsets[j]
                      links.append((start,end,fdr))
                  if len(links)>0:
                      links = torch.tensor(links)
                      results.append(links)
  return [] if len(results) ==0 else torch.cat(results,dim=0)
  \<close>
  The cross-link file maps a chain description to a chain description to a list of links;
  the chain id map gives the description of every chain. The result is the list of the rows.
  \<open>process_xl_input\<close> reads the file, computes the offsets from the integer tensor
  \<open>features['asym_id']\<close> and builds the rows.
\<close>

type_synonym xl_table = "(string, (string, (int \<times> int \<times> rat) list) dict) dict"

definition shift_links ::
  "nat list \<Rightarrow> nat \<Rightarrow> nat \<Rightarrow> (int \<times> int \<times> rat) list \<Rightarrow> error + (rat \<times> rat \<times> rat) list" where
  "shift_links offsets i j links =
     for_each_e (\<lambda>(start, end, fdr).
        try_e (list_get offsets i) (\<lambda>offset_i.
        try_e (list_get offsets j) (\<lambda>offset_j.
        Inr (of_int (start + int offset_i), of_int (end + int offset_j), fdr)))) links"

definition create_xl_features ::
  "xl_table \<Rightarrow> nat list \<Rightarrow> (string, string) dict \<Rightarrow> error + (rat \<times> rat \<times> rat) list" where
  "create_xl_features xl_pickle offsets chain_id_map =
     (let descriptions = map snd chain_id_map
      in try_e
           (for_each_e (\<lambda>(i, chain1).
              try_e
                (for_each_e (\<lambda>(j, chain2).
                   case map_of xl_pickle chain1 of
                     None \<Rightarrow> Inr []
                   | Some by_chain2 \<Rightarrow>
                       (case map_of by_chain2 chain2 of
                          None \<Rightarrow> Inr []
                        | Some links \<Rightarrow> shift_links offsets i j links))
                   (enumerate 0 descriptions))
                (\<lambda>results. Inr (concat results)))
              (enumerate 0 descriptions))
           (\<lambda>results. Inr (concat results)))"

definition process_xl_input ::
  "(string \<rightharpoonup> xl_table) \<Rightarrow> torchdict \<Rightarrow> string \<Rightarrow> (string, string) dict \<Rightarrow>
   error + (rat \<times> rat \<times> rat) list" where
  "process_xl_input xl_files features crosslinks chain_id_map =
     try_e (load_json xl_files crosslinks) (\<lambda>xl_pickle.
     try_e (getitem features ''asym_id'') (\<lambda>asym_id.
     let offsets = calculate_offsets (map py_int (flatten asym_id))
     in create_xl_features xl_pickle offsets chain_id_map))"

section \<open>\<open>process_ap\<close>\<close>

text \<open>
  \<^verbatim>\<open>
  feature_names += ['asym_id','entity_id','sym_id','template_all_atom_mask','template_aatype','template_all_atom_positions']
  ...
  with data_utils.numpy_seed(seed=seed, key="protein_feature"):
      ...
      features["template_mask"] = torch.ones(
          features["template_aatype"].shape[-1], dtype=torch.float32).reshape(1,-1)
      cfg.common.use_template = True
      with torch.no_grad():
          features = process_features(features, cfg.common, cfg[mode])
  ...
  if crosslinks is not None:
      xl = process_xl_input(features, crosslinks=crosslinks, chain_id_map=kwargs['chain_id_map'])
      if len(xl) == 0:
          xl = np.zeros((num_res,num_res,1))
      else:
          xl = bin_xl(xl,num_res)
      features['xl'] = torch.unsqueeze(torch.tensor(xl),0)
  else:
      features['xl'] =  torch.tensor(np.zeros((num_res,num_res,1)))
  return features, labels
  \<close>
  \<open>process_ap\<close> is \<open>process\<close> with these differences; its last part is \<open>xl_feature\<close>. The
  permutation \<open>torch.randperm\<close> draws for a length is a parameter; \<open>np.zeros\<close> raises on a
  negative length.
\<close>

definition ap_feature_names :: "string list" where
  "ap_feature_names =
     [''asym_id'', ''entity_id'', ''sym_id'', ''template_all_atom_mask'', ''template_aatype'',
      ''template_all_atom_positions'']"

definition template_mask :: "torchdict \<Rightarrow> error + tensor" where
  "template_mask features =
     try_e (getitem features ''template_aatype'') (\<lambda>template_aatype.
     if shape template_aatype = [] then Inl IndexError
     else Inr (Array [Array (replicate (last (shape template_aatype)) (Scalar 1))]))"

definition zeros_checked :: "int \<Rightarrow> error + nat list list list" where
  "zeros_checked num_res =
     (if num_res < 0 then Inl ValueError else Inr (zeros3 (nat num_res) (nat num_res) 1))"

definition xl_feature ::
  "(string \<rightharpoonup> xl_table) \<Rightarrow> (nat \<Rightarrow> nat list) \<Rightarrow> torchdict \<Rightarrow> int \<Rightarrow> string option \<Rightarrow>
   (string, string) dict option \<Rightarrow> error + tensor" where
  "xl_feature xl_files randperm features num_res crosslinks chain_id_map =
     (case crosslinks of
        Some crosslinks \<Rightarrow>
          try_e (case chain_id_map of
                   None \<Rightarrow> Inl (KeyError ''chain_id_map'')
                 | Some m \<Rightarrow> Inr m) (\<lambda>chain_id_map.
          try_e (process_xl_input xl_files features crosslinks chain_id_map) (\<lambda>xl.
          try_e (if length xl = 0 then zeros_checked num_res
                 else if num_res < 0 then Inl ValueError
                 else bin_xl (randperm (length xl)) xl (nat num_res)) (\<lambda>xl.
          Inr (unsqueeze_0 (tensor_3 xl)))))
      | None \<Rightarrow> try_e (zeros_checked num_res) (\<lambda>xl. Inr (tensor_3 xl)))"

definition process_ap ::
  "'g np_random \<Rightarrow> 'g processors \<Rightarrow> (string \<rightharpoonup> xl_table) \<Rightarrow> (nat \<Rightarrow> nat list) \<Rightarrow>
   data_config \<Rightarrow> string \<Rightarrow> npdict \<Rightarrow> npdict list option \<Rightarrow> int \<Rightarrow> int option \<Rightarrow> bool \<Rightarrow>
   string option \<Rightarrow> (string, string) dict option \<Rightarrow>
   ('g, torchdict \<times> torchdict list option) run" where
  "process_ap rng procs xl_files randperm config mode features labels seed batch_idx
        is_distillation crosslinks chain_id_map =
     bind (recycling rng config mode seed batch_idx) (\<lambda>draws.
     let features = set_recycling features draws is_distillation in
     bind (lift (try_e (getitem features ''seq_length'') py_int_of)) (\<lambda>num_res.
     bind (lift (make_data_config config mode num_res)) (\<lambda>(cfg, feature_names).
     let feature_names = feature_names @ ap_feature_names in
     bind (lift (set_resolution features labels)) (\<lambda>features.
     bind (numpy_seed rng seed [] ''protein_feature''
             (bind (randint rng 0 63355) (\<lambda>crop_and_fix_size_seed.
              let features = AList.update ''crop_and_fix_size_seed'' (num crop_and_fix_size_seed)
                               features;
                  features = filter_keys features feature_names;
                  features = to_tensors features
              in bind (lift (template_mask features)) (\<lambda>mask.
                 let features = AList.update ''template_mask'' mask features;
                     cfg = cfg\<lparr>common := (common cfg)\<lparr>use_template := Some True\<rparr>\<rparr>
                 in bind (lift (getitem (by_mode cfg) mode)) (\<lambda>mode_cfg.
                    process_features procs features (common cfg) mode_cfg))))) (\<lambda>features.
     bind (lift (convert_labels procs labels)) (\<lambda>labels.
     bind (lift (xl_feature xl_files randperm features num_res crosslinks chain_id_map)) (\<lambda>xl.
     return (AList.update ''xl'' xl features, labels))))))))"

section \<open>Scoped computations and inputs to run the processors on\<close>

text \<open>
  A computation is scoped when its outcome does not depend on the state it starts from and
  it leaves that state as it was.
\<close>

definition scoped :: "('g, 'a) run \<Rightarrow> bool" where
  "scoped m = (\<exists>r. \<forall>g. m g = (r, g))"

text \<open>
  Inputs to run \<open>process\<close> and \<open>process_ap\<close> on: a configuration, the features of a
  two-residue chain, processors that return their argument, a cross-link file with no link
  and one with a link, and the identity permutation. \<open>xl_of\<close> reads the feature \<open>xl\<close> of a
  result.
\<close>

definition example_config :: data_config where
  "example_config =
     \<lparr>common =
        \<lparr>unsupervised_features =
           [''aatype'', ''seq_length'', ''num_recycling_iters'', ''use_clamped_fape'',
            ''is_distillation'', ''crop_and_fix_size_seed''],
         recycling_features = [],
         template_features = [''template_aatype''],
         multimer_features = [''asym_id''],
         use_templates = True,
         is_multimer = True,
         max_recycling_iters = 3,
         use_template = None\<rparr>,
      by_mode =
        [(''train'', \<lparr>crop_size = None, supervised = False, use_clamped_fape_prob = 9 / 10\<rparr>),
         (''eval'', \<lparr>crop_size = None, supervised = False, use_clamped_fape_prob = 9 / 10\<rparr>)],
      supervised_features = []\<rparr>"

definition example_features :: npdict where
  "example_features =
     [(''aatype'', Nd (Array [Scalar 0, Scalar 4])),
      (''seq_length'', Nd (Scalar 2)),
      (''asym_id'', Nd (Array [Scalar 1, Scalar 1])),
      (''template_aatype'', Nd (Array [Array [Scalar 0, Scalar 4]])),
      (''msa'', Nd (Array [Array [Scalar 0, Scalar 4]]))]"

definition identity_processors :: "'g processors" where
  "identity_processors =
     \<lparr>process_features = (\<lambda>features common_cfg mode_cfg. return features),
      process_labels = Inr\<rparr>"

definition example_xl_files :: "string \<rightharpoonup> xl_table" where
  "example_xl_files =
     map_of [(''none.pkl.gz'', []),
             (''links.pkl.gz'', [(''A'', [(''A'', [(0, 1, 1 / 10)])])])]"

definition example_chain_id_map :: "(string, string) dict" where
  "example_chain_id_map = [(''A_0'', ''A'')]"

definition identity_perm :: "nat \<Rightarrow> nat list" where
  "identity_perm n = [0..<n]"

definition xl_of :: "(error + torchdict \<times> torchdict list option) \<times> 'g \<Rightarrow> tensor option" where
  "xl_of result = (case fst result of Inl e \<Rightarrow> None | Inr (features, labels) \<Rightarrow> map_of features ''xl'')"

chapter \<open>Verified properties\<close>

section \<open>Properties of \<open>_inverse_map\<close>\<close>

lemma inverse_map_refs_error:
  "inverse_map_refs ent refs im = Inl e \<Longrightarrow> \<exists>msg. e = AssertionError msg"
  by (induction refs arbitrary: im) (auto split: option.splits if_splits)

lemma inverse_map_items_error:
  "inverse_map_items items im = Inl e \<Longrightarrow> \<exists>msg. e = AssertionError msg"
proof (induction items arbitrary: im)
  case Nil
  then show ?case by simp
next
  case (Cons item items)
  obtain ent refs where item: "item = (ent, refs)" by (cases item)
  show ?case
  proof (cases "inverse_map_refs ent refs im")
    case (Inl e')
    with Cons.prems item have "e = e'" by simp
    with Inl show ?thesis using inverse_map_refs_error by blast
  next
    case (Inr im')
    with Cons.prems item have "inverse_map_items items im' = Inl e" by simp
    then show ?thesis by (rule Cons.IH)
  qed
qed

lemma inverse_map_refs_keeps:
  "inverse_map_refs ent refs im = Inr im' \<Longrightarrow> map_of im r = Some e \<Longrightarrow>
   map_of im' r = Some e"
proof (induction refs arbitrary: im)
  case Nil
  then show ?case by simp
next
  case (Cons ref refs)
  from Cons.prems(1) have step: "inverse_map_refs ent refs (AList.update ref ent im) = Inr im'"
    and ok: "map_of im ref = None \<or> map_of im ref = Some ent"
    by (auto split: option.splits if_splits)
  from ok Cons.prems(2) have "map_of (AList.update ref ent im) r = Some e"
    by (auto simp: update_conv')
  with step show ?case by (rule Cons.IH)
qed

lemma inverse_map_refs_sets:
  "inverse_map_refs ent refs im = Inr im' \<Longrightarrow> r \<in> set refs \<Longrightarrow> map_of im' r = Some ent"
proof (induction refs arbitrary: im)
  case Nil
  then show ?case by simp
next
  case (Cons ref refs)
  from Cons.prems(1) have step: "inverse_map_refs ent refs (AList.update ref ent im) = Inr im'"
    by (auto split: option.splits if_splits)
  show ?case
  proof (cases "r = ref")
    case True
    then have "map_of (AList.update ref ent im) r = Some ent" by (simp add: update_conv')
    with step show ?thesis by (rule inverse_map_refs_keeps)
  next
    case False
    with Cons.prems(2) have "r \<in> set refs" by simp
    with step show ?thesis by (rule Cons.IH)
  qed
qed

lemma inverse_map_items_keeps:
  "inverse_map_items items im = Inr im' \<Longrightarrow> map_of im r = Some e \<Longrightarrow>
   map_of im' r = Some e"
proof (induction items arbitrary: im)
  case Nil
  then show ?case by simp
next
  case (Cons item items)
  obtain ent refs where item: "item = (ent, refs)" by (cases item)
  from Cons.prems(1) item obtain im1 where
    one: "inverse_map_refs ent refs im = Inr im1" and
    rest: "inverse_map_items items im1 = Inr im'"
    by (auto split: sum.splits)
  from one Cons.prems(2) have "map_of im1 r = Some e" by (rule inverse_map_refs_keeps)
  with rest show ?case by (rule Cons.IH)
qed

lemma inverse_map_items_sets:
  "inverse_map_items items im = Inr im' \<Longrightarrow> (ent, refs) \<in> set items \<Longrightarrow> r \<in> set refs \<Longrightarrow>
   map_of im' r = Some ent"
proof (induction items arbitrary: im)
  case Nil
  then show ?case by simp
next
  case (Cons item items)
  obtain ent0 refs0 where item: "item = (ent0, refs0)" by (cases item)
  from Cons.prems(1) item obtain im1 where
    one: "inverse_map_refs ent0 refs0 im = Inr im1" and
    rest: "inverse_map_items items im1 = Inr im'"
    by (auto split: sum.splits)
  show ?case
  proof (cases "(ent, refs) = item")
    case True
    with item one Cons.prems(3) have "map_of im1 r = Some ent"
      using inverse_map_refs_sets by auto
    with rest show ?thesis by (rule inverse_map_items_keeps)
  next
    case False
    with Cons.prems(2) have "(ent, refs) \<in> set items" by simp
    with rest show ?thesis using Cons.prems(3) by (rule Cons.IH)
  qed
qed

text \<open>
  Claim C3. On the mapping \<open>{"seqA": ["c1", "c2"]}\<close> the inverse map is
  \<open>{"c1": "seqA", "c2": "seqA"}\<close>; and whenever some label id is listed under two distinct
  sequence ids, the construction does not return a map but raises an assertion error.
\<close>

theorem inverse_map_spec:
  "inverse_map [(''seqA'', [''c1'', ''c2''])] = Inr [(''c1'', ''seqA''), (''c2'', ''seqA'')] \<and>
   ((ent1, refs1) \<in> set mapping \<and> (ent2, refs2) \<in> set mapping \<and> ent1 \<noteq> ent2 \<and>
    ref \<in> set refs1 \<and> ref \<in> set refs2 \<longrightarrow>
    (\<exists>msg. inverse_map mapping = Inl (AssertionError msg)))"
proof (intro conjI impI)
  show "inverse_map [(''seqA'', [''c1'', ''c2''])] = Inr [(''c1'', ''seqA''), (''c2'', ''seqA'')]"
    by (simp add: inverse_map_def)
next
  assume h: "(ent1, refs1) \<in> set mapping \<and> (ent2, refs2) \<in> set mapping \<and> ent1 \<noteq> ent2 \<and>
    ref \<in> set refs1 \<and> ref \<in> set refs2"
  show "\<exists>msg. inverse_map mapping = Inl (AssertionError msg)"
  proof (cases "inverse_map mapping")
    case (Inl e)
    then show ?thesis using inverse_map_items_error by (auto simp: inverse_map_def)
  next
    case (Inr im')
    then have res: "inverse_map_items mapping [] = Inr im'" by (simp add: inverse_map_def)
    from res h have "map_of im' ref = Some ent1" using inverse_map_items_sets by blast
    moreover from res h have "map_of im' ref = Some ent2" using inverse_map_items_sets by blast
    ultimately show ?thesis using h by simp
  qed
qed

theorem inverse_map_spec_witness:
  "((''seqA'', [''c1'']) \<in> set [(''seqA'', [''c1'']), (''seqB'', [''c1''])] \<and>
    (''seqB'', [''c1'']) \<in> set [(''seqA'', [''c1'']), (''seqB'', [''c1''])] \<and>
    ''seqA'' \<noteq> ''seqB'' \<and> ''c1'' \<in> set [''c1'']) \<and>
   inverse_map [(''seqA'', [''c1'']), (''seqB'', [''c1''])] =
     Inl (AssertionError ''multiple entities (seqA, seqB) exist for reference c1.'')"
  using inverse_map_spec [of "''seqA''" "[''c1'']" "[(''seqA'', [''c1'']), (''seqB'', [''c1''])]"
      "''seqB''" "[''c1'']" "''c1''"]
  by (simp add: inverse_map_def multiple_entities_def)

section \<open>The multimer collater\<close>

lemma map_filter_all_None: "(\<forall>s\<in>set samples. snd s = None) \<Longrightarrow> List.map_filter snd samples = []"
  by (induction samples) (auto simp: List.map_filter_simps)

text \<open>
  Claim C9. The multimer collater returns a null batch on the empty list; on a non-empty list
  in which no sample carries labels it returns the stacked features with \<open>None\<close> for the
  label half; and when stacking the features fails it raises a collation error that carries
  the per-example features.
\<close>

theorem multimer_collater_spec:
  "multimer_collater collate_dict ([] :: ('f \<times> 'l option) list) = Inr None \<and>
   ((samples :: ('f \<times> 'l option) list) \<noteq> [] \<and> (\<forall>s\<in>set samples. snd s = None) \<and>
    collate_dict (map fst samples) 1 = Inr stacked \<longrightarrow>
    multimer_collater collate_dict samples = Inr (Some (stacked, None))) \<and>
   (samples \<noteq> [] \<and> collate_dict (map fst samples) 1 = Inl failure \<longrightarrow>
    multimer_collater collate_dict samples =
      Inl (CollationValueError ''cannot collate features'' (map fst samples)))"
  by (auto simp: multimer_collater_def map_filter_all_None)

theorem multimer_collater_spec_witness:
  "([([1, 2 :: nat], None :: unit option), ([3, 4], None)] \<noteq> [] \<and>
    list_all (\<lambda>s. snd s = None) [([1, 2], None :: unit option), ([3, 4 :: nat], None)] \<and>
    stack_same_length (map fst [([1, 2], None :: unit option), ([3, 4], None)]) 1 = Inr [[1, 3], [2, 4]] \<and>
    multimer_collater stack_same_length [([1, 2], None :: unit option), ([3, 4], None)] =
      Inr (Some ([[1, 3], [2, 4]], None))) \<and>
   ([([1, 2 :: nat], Some ()), ([3], None)] \<noteq> [] \<and>
    stack_same_length (map fst [([1, 2], Some ()), ([3], None)]) 1 = Inl () \<and>
    multimer_collater stack_same_length [([1, 2], Some ()), ([3], None)] =
      Inl (CollationValueError ''cannot collate features'' [[1, 2], [3]]))"
proof -
  have a: "stack_same_length (map fst [([1, 2], None :: unit option), ([3, 4], None)]) 1 = Inr [[1, 3], [2, 4]]"
    by (simp add: stack_same_length_def transpose.simps)
  have b: "stack_same_length (map fst [([1, 2], Some ()), ([3], None)]) 1 = Inl ()"
    by (simp add: stack_same_length_def)
  show ?thesis
    using multimer_collater_spec [of stack_same_length "[([1, 2], None :: unit option), ([3, 4], None)]" "[[1, 3], [2, 4]]" "()"]
      multimer_collater_spec [of stack_same_length "[([1, 2], Some ()), ([3], None)]" "[]" "()"]
      a b
    by simp
qed

section \<open>Filtering structures by assembly size\<close>

lemma list_overlaps_iff: "list_overlaps a b \<longleftrightarrow> (\<forall>i\<in>set a. i \<in> set b)"
  by (induction a) auto

lemma update_fresh: "k \<notin> fst ` set al \<Longrightarrow> AList.update k v al = al @ [(k, v)]"
  by (induction al) auto

lemma update_again: "AList.update k v (AList.update k v al) = AList.update k v al"
  by (induction al) auto

lemma filter_pdb_loop_filter:
  "distinct (map fst rest) \<Longrightarrow> fst ` set rest \<inter> fst ` set acc = {} \<Longrightarrow>
   filter_pdb_loop rest pdb_assembly max_chains inverse_labels acc =
     acc @ filter (survives pdb_assembly max_chains inverse_labels) rest"
proof (induction rest arbitrary: acc)
  case Nil
  then show ?case by simp
next
  case (Cons item rest)
  obtain chain cs where item: "item = (chain, cs)" by (cases item)
  from Cons.prems item have fresh: "chain \<notin> fst ` set acc" by auto
  from Cons.prems item have d: "distinct (map fst rest)" and notin: "chain \<notin> fst ` set rest"
    by auto
  from fresh have u1: "AList.update chain cs acc = acc @ [(chain, cs)]"
    by (rule update_fresh)
  have u2: "AList.update chain cs (AList.update chain cs acc) = acc @ [(chain, cs)]"
    unfolding update_again by (rule u1)
  show ?case
  proof (cases "survives pdb_assembly max_chains inverse_labels item")
    case True
    then have step: "filter_pdb_loop (item # rest) pdb_assembly max_chains inverse_labels acc =
        filter_pdb_loop rest pdb_assembly max_chains inverse_labels (acc @ [(chain, cs)])"
      using item u1 u2
      by (auto simp: survives_def split: option.splits)
    from Cons.prems item notin have "fst ` set rest \<inter> fst ` set (acc @ [(chain, cs)]) = {}"
      by auto
    from Cons.IH [OF d this] step True item show ?thesis by simp
  next
    case False
    then have step: "filter_pdb_loop (item # rest) pdb_assembly max_chains inverse_labels acc =
        filter_pdb_loop rest pdb_assembly max_chains inverse_labels acc"
      using item by (auto simp: survives_def split: option.splits)
    from Cons.prems have "fst ` set rest \<inter> fst ` set acc = {}" by auto
    from Cons.IH [OF d this] step False show ?thesis by simp
  qed
qed

text \<open>
  Claim C7. Of the structures in the chain index, one that the assembly map lists is kept
  exactly when its assembly has at most \<open>max_chains\<close> chains and every assembly chain, named
  \<open>pdbid_chainid\<close>, is a key of the inverse label map; one that the assembly map does not
  list is kept exactly when it has one chain; and the returned sample-weight table holds
  exactly the entries of the given table whose structure was kept.
\<close>

theorem filter_pdb_by_max_chains_spec:
  assumes "distinct (keys pdb_chains)"
    and "filter_pdb_by_max_chains pdb_chains pdb_assembly sample_weight max_chains inverse_labels
           = (new_pdb_chains, new_sample_weight)"
  shows "(\<forall>pdb cs. (pdb, cs) \<in> set pdb_chains \<longrightarrow>
            ((pdb, cs) \<in> set new_pdb_chains \<longleftrightarrow>
               (case map_of pdb_assembly pdb of
                  Some a \<Rightarrow> int (length (chains a)) \<le> max_chains \<and>
                    (\<forall>chain_id\<in>set (chains a). pdb @ ''_'' @ chain_id \<in> set (keys inverse_labels))
                | None \<Rightarrow> length cs = 1))) \<and>
         set new_pdb_chains \<subseteq> set pdb_chains \<and>
         (\<forall>k w. (k, w) \<in> set new_sample_weight \<longleftrightarrow>
            (k, w) \<in> set sample_weight \<and> get_pdb_name k \<in> set (keys new_pdb_chains))"
proof -
  from assms(1) have
    "filter_pdb_loop pdb_chains pdb_assembly max_chains inverse_labels [] =
       filter (survives pdb_assembly max_chains inverse_labels) pdb_chains"
    using filter_pdb_loop_filter [of pdb_chains "[]"] by (simp add: keys_def)
  with assms(2) have new: "new_pdb_chains = filter (survives pdb_assembly max_chains inverse_labels) pdb_chains"
    and sw: "new_sample_weight = filter (\<lambda>(k, w). get_pdb_name k \<in> set (keys new_pdb_chains)) sample_weight"
    by (auto simp: filter_pdb_by_max_chains_def Let_def)
  have 1: "\<forall>pdb cs. (pdb, cs) \<in> set pdb_chains \<longrightarrow>
            ((pdb, cs) \<in> set new_pdb_chains \<longleftrightarrow>
               (case map_of pdb_assembly pdb of
                  Some a \<Rightarrow> int (length (chains a)) \<le> max_chains \<and>
                    (\<forall>chain_id\<in>set (chains a). pdb @ ''_'' @ chain_id \<in> set (keys inverse_labels))
                | None \<Rightarrow> length cs = 1))"
    unfolding new by (auto simp: survives_def list_overlaps_iff split: option.splits)
  have 2: "set new_pdb_chains \<subseteq> set pdb_chains" unfolding new by auto
  have 3: "\<forall>k w. (k, w) \<in> set new_sample_weight \<longleftrightarrow>
            (k, w) \<in> set sample_weight \<and> get_pdb_name k \<in> set (keys new_pdb_chains)"
    unfolding sw by auto
  from 1 2 3 show ?thesis by blast
qed

section \<open>Chain offsets\<close>

lemma length_cumsum_from: "length (cumsum_from t xs) = length xs"
  by (induction xs arbitrary: t) auto

lemma nth_cumsum_from:
  "i < length xs \<Longrightarrow> cumsum_from t xs ! i = t + sum_list (take (Suc i) xs)"
proof (induction xs arbitrary: t i)
  case Nil
  then show ?case by simp
next
  case (Cons x xs)
  show ?case
  proof (cases i)
    case 0
    then show ?thesis by simp
  next
    case (Suc k)
    with Cons.prems have "k < length xs" by simp
    from Cons.IH [OF this, of "t + x"] Suc show ?thesis by simp
  qed
qed

lemma length_calculate_offsets: "length (calculate_offsets a) = length (unique a) + 1"
  by (simp add: calculate_offsets_def cumsum_def length_cumsum_from)

lemma nth_calculate_offsets:
  "i \<le> length (unique a) \<Longrightarrow>
   calculate_offsets a ! i = sum_list (map (count_list a) (take i (unique a)))"
proof -
  assume "i \<le> length (unique a)"
  then have "i < length (0 # map (count_list a) (unique a))" by simp
  from nth_cumsum_from [OF this, of 0] show ?thesis
    by (simp add: calculate_offsets_def cumsum_def take_map)
qed

lemma blocks_Nil [simp]: "blocks c [] = []"
  by (simp add: blocks_def)

lemma blocks_Cons [simp]: "blocks c (v # us) = replicate (c v) v @ blocks c us"
  by (simp add: blocks_def)

lemma set_blocks: "set (blocks c us) \<subseteq> set us"
  by (induction us) auto

lemma length_blocks: "length (blocks c us) = sum_list (map c us)"
  by (induction us) auto

lemma sorted_blocks: "sorted us \<Longrightarrow> sorted (blocks c us)"
proof (induction us)
  case Nil
  then show ?case by simp
next
  case (Cons v us)
  then have "sorted (blocks c us)" and "\<forall>x\<in>set (blocks c us). v \<le> x"
    using set_blocks [of c us] by auto
  then show ?case by (auto simp: sorted_append)
qed

lemma count_blocks:
  "distinct us \<Longrightarrow> count (mset (blocks c us)) x = (if x \<in> set us then c x else 0)"
  by (induction us) auto

lemma sorted_is_blocks:
  assumes "sorted a"
  shows "a = blocks (count_list a) (unique a)"
proof -
  have d: "distinct (unique a)" and s: "sorted (unique a)" and e: "set (unique a) = set a"
    by (simp_all add: unique_def)
  have "mset (blocks (count_list a) (unique a)) = mset a"
  proof (rule multiset_eqI)
    fix x
    show "count (mset (blocks (count_list a) (unique a))) x = count (mset a) x"
      using count_blocks [OF d, of "count_list a" x] e
      by (auto simp: count_mset count_list_0_iff)
  qed
  moreover have "sorted (blocks (count_list a) (unique a))" using s by (rule sorted_blocks)
  ultimately have "sort a = blocks (count_list a) (unique a)" by (rule properties_for_sort)
  moreover from assms have "sort a = a" by (simp add: sort_key_id_if_sorted)
  ultimately show ?thesis by simp
qed

lemma blocks_range:
  "distinct us \<Longrightarrow> i < length us \<Longrightarrow>
   (sum_list (map c (take i us)) \<le> j \<and> j < sum_list (map c (take (Suc i) us))) \<longleftrightarrow>
   (j < length (blocks c us) \<and> blocks c us ! j = us ! i)"
proof (induction us arbitrary: i j)
  case Nil
  then show ?case by simp
next
  case (Cons v us)
  have tail: "\<And>k. k < length (blocks c us) \<Longrightarrow> blocks c us ! k \<noteq> v"
    using Cons.prems(1) set_blocks [of c us] nth_mem by fastforce
  show ?case
  proof (cases i)
    case 0
    show ?thesis
    proof (cases "j < c v")
      case True
      with 0 show ?thesis by (simp add: nth_append)
    next
      case False
      with 0 tail [of "j - c v"] show ?thesis by (auto simp: nth_append)
    qed
  next
    case (Suc k)
    with Cons.prems have d: "distinct us" and k: "k < length us" and ne: "us ! k \<noteq> v"
      by auto
    show ?thesis
    proof (cases "j < c v")
      case True
      with Suc ne show ?thesis by (auto simp: nth_append)
    next
      case False
      with Cons.IH [OF d k, of "j - c v"] Suc show ?thesis
        by (auto simp: nth_append)
    qed
  qed
qed

text \<open>
  Claim C6, as amended. On the asym ids \<open>[0, 0, 1, 1, 1]\<close> the offsets are \<open>[0, 2, 5]\<close>. For
  every asym-id list the result has one entry more than there are chains, and entry \<open>i\<close> is
  the sum of the residue counts of the first \<open>i\<close> chains in ascending id order. When the ids
  are non-decreasing along the residue axis, the residues of the \<open>i\<close>-th chain are exactly the
  positions from \<open>offsets[i]\<close> up to, but excluding, \<open>offsets[i + 1]\<close>.
\<close>

theorem calculate_offsets_spec:
  "calculate_offsets [0, 0, 1, 1, 1] = [0, 2, 5] \<and>
   length (calculate_offsets asym_ids) = length (unique asym_ids) + 1 \<and>
   (\<forall>i \<le> length (unique asym_ids).
      calculate_offsets asym_ids ! i =
        sum_list (map (count_list asym_ids) (take i (unique asym_ids)))) \<and>
   (sorted asym_ids \<longrightarrow>
      (\<forall>i < length (unique asym_ids). \<forall>j.
         (calculate_offsets asym_ids ! i \<le> j \<and> j < calculate_offsets asym_ids ! (i + 1)) \<longleftrightarrow>
         (j < length asym_ids \<and> asym_ids ! j = unique asym_ids ! i)))"
proof (intro conjI impI allI)
  show "calculate_offsets [0, 0, 1, 1, 1] = [0, 2, 5]"
    by (simp add: calculate_offsets_def unique_def cumsum_def)
next
  show "length (calculate_offsets asym_ids) = length (unique asym_ids) + 1"
    by (rule length_calculate_offsets)
next
  fix i assume "i \<le> length (unique asym_ids)"
  then show "calculate_offsets asym_ids ! i =
        sum_list (map (count_list asym_ids) (take i (unique asym_ids)))"
    by (rule nth_calculate_offsets)
next
  fix i j
  assume s: "sorted asym_ids" and i: "i < length (unique asym_ids)"
  have d: "distinct (unique asym_ids)" by (simp add: unique_def)
  from s have eq: "blocks (count_list asym_ids) (unique asym_ids) = asym_ids"
    using sorted_is_blocks by simp
  from i have "calculate_offsets asym_ids ! i =
      sum_list (map (count_list asym_ids) (take i (unique asym_ids)))"
    and "calculate_offsets asym_ids ! (i + 1) =
      sum_list (map (count_list asym_ids) (take (Suc i) (unique asym_ids)))"
    by (simp_all add: nth_calculate_offsets)
  with blocks_range [OF d i, of "count_list asym_ids" j] eq
  show "(calculate_offsets asym_ids ! i \<le> j \<and> j < calculate_offsets asym_ids ! (i + 1)) \<longleftrightarrow>
         (j < length asym_ids \<and> asym_ids ! j = unique asym_ids ! i)"
    by simp
qed

section \<open>The filter and the offsets on concrete inputs\<close>

theorem filter_pdb_by_max_chains_spec_witness:
  "distinct (keys example_pdb_chains) \<and>
   filter_pdb_by_max_chains example_pdb_chains example_pdb_assembly
      example_sample_weight 2 example_inverse_labels =
      ([(''1abc'', [''1abc_A'', ''1abc_B'']), (''2xyz'', [''2xyz_A''])],
       [(''1abc_A'', 1), (''1abc_B'', 2), (''2xyz_A'', 3)]) \<and>
   (''3big'', [''3big_A'', ''3big_B'', ''3big_C'']) \<in> set example_pdb_chains \<and>
   ((''3big'', [''3big_A'', ''3big_B'', ''3big_C''])
      \<in> set [(''1abc'', [''1abc_A'', ''1abc_B'']), (''2xyz'', [''2xyz_A''])] \<longleftrightarrow>
    (case map_of example_pdb_assembly ''3big'' of
       Some a \<Rightarrow> int (length (chains a)) \<le> 2 \<and>
         (\<forall>chain_id\<in>set (chains a). ''3big'' @ ''_'' @ chain_id \<in> set (keys example_inverse_labels))
     | None \<Rightarrow> length [''3big_A'', ''3big_B'', ''3big_C''] = 1)) \<and>
   (''4two'', [''4two_A'', ''4two_B'']) \<in> set example_pdb_chains \<and>
   ((''4two'', [''4two_A'', ''4two_B''])
      \<in> set [(''1abc'', [''1abc_A'', ''1abc_B'']), (''2xyz'', [''2xyz_A''])] \<longleftrightarrow>
    (case map_of example_pdb_assembly ''4two'' of
       Some a \<Rightarrow> int (length (chains a)) \<le> 2 \<and>
         (\<forall>chain_id\<in>set (chains a). ''4two'' @ ''_'' @ chain_id \<in> set (keys example_inverse_labels))
     | None \<Rightarrow> length [''4two_A'', ''4two_B''] = 1))"
proof -
  have d: "distinct (keys example_pdb_chains)"
    by (simp add: example_pdb_chains_def keys_def)
  have f: "filter_pdb_by_max_chains example_pdb_chains example_pdb_assembly
      example_sample_weight 2 example_inverse_labels =
      ([(''1abc'', [''1abc_A'', ''1abc_B'']), (''2xyz'', [''2xyz_A''])],
       [(''1abc_A'', 1), (''1abc_B'', 2), (''2xyz_A'', 3)])"
    by (simp add: filter_pdb_by_max_chains_def example_pdb_chains_def example_pdb_assembly_def
        example_sample_weight_def example_inverse_labels_def keys_def get_pdb_name_def)
  have m3: "(''3big'', [''3big_A'', ''3big_B'', ''3big_C'']) \<in> set example_pdb_chains"
    and m4: "(''4two'', [''4two_A'', ''4two_B'']) \<in> set example_pdb_chains"
    by (simp_all add: example_pdb_chains_def)
  from filter_pdb_by_max_chains_spec [OF d f] m3 m4 d f show ?thesis by blast
qed

theorem calculate_offsets_spec_witness:
  "sorted [0, 0, 1, 1, 1 :: int] \<and> (1 :: nat) < length (unique [0, 0, 1, 1, 1]) \<and>
   ((calculate_offsets [0, 0, 1, 1, 1] ! 1 \<le> 2 \<and> 2 < calculate_offsets [0, 0, 1, 1, 1] ! (1 + 1))
      \<longleftrightarrow> ((2 :: nat) < length [0, 0, 1, 1, 1 :: int] \<and>
           [0, 0, 1, 1, 1] ! 2 = unique [0, 0, 1, 1, 1] ! 1)) \<and>
   calculate_offsets [0, 0, 1, 1, 1] ! 1 = 2 \<and> calculate_offsets [0, 0, 1, 1, 1] ! (1 + 1) = 5"
proof -
  have s: "sorted [0, 0, 1, 1, 1 :: int]" by simp
  have u: "unique [0, 0, 1, 1, 1] = [0, 1]" by (simp add: unique_def)
  from calculate_offsets_spec [of "[0, 0, 1, 1, 1]"] s u show ?thesis
    by (simp add: calculate_offsets_def cumsum_def)
qed

text \<open>
  Without the ordering the positional reading fails: in \<open>[1, 1, 0]\<close> the only residue of the
  chain with id \<open>0\<close> is at position \<open>2\<close>, which is none of the offsets \<open>[0, 1, 3]\<close>.
\<close>

theorem calculate_offsets_counterexample:
  "calculate_offsets [1, 1, 0] = [0, 1, 3] \<and>
   [1, 1, 0 :: int] ! 0 \<noteq> 0 \<and> [1, 1, 0 :: int] ! 1 \<noteq> 0 \<and> [1, 1, 0 :: int] ! 2 = 0 \<and>
   2 \<notin> set (calculate_offsets [1, 1, 0])"
  by (simp add: calculate_offsets_def unique_def cumsum_def)

section \<open>The dense cross-link array\<close>

lemma norm_index_lt: "norm_index n i = Inr i' \<Longrightarrow> i' < n"
  by (auto simp: norm_index_def split: if_splits)

lemma norm_index_error: "norm_index n i = Inl e \<Longrightarrow> e = IndexError"
  by (auto simp: norm_index_def split: if_splits)

lemma norm_index_unit: "norm_index (Suc 0) 0 = Inr 0"
  by (simp add: norm_index_def)

lemma dense3_nth:
  "dense3 n arr \<Longrightarrow> i < n \<Longrightarrow> length (arr ! i) = n"
  "dense3 n arr \<Longrightarrow> i < n \<Longrightarrow> j < n \<Longrightarrow> length (arr ! i ! j) = 1"
  by (auto simp: dense3_def list_all_length)

lemma dense3_zeros3: "dense3 n (zeros3 n n 1)"
  by (simp add: dense3_def zeros3_def list_all_length)

lemma cell_zeros3: "i < n \<Longrightarrow> j < n \<Longrightarrow> cell (zeros3 n n 1) i j = 0"
  by (simp add: cell_def zeros3_def)

lemma cell_zeros3_Suc: "i < n \<Longrightarrow> j < n \<Longrightarrow> cell (zeros3 n n (Suc 0)) i j = 0"
  using cell_zeros3 [of i n j] by simp

lemma setitem3_Inr:
  assumes "dense3 n arr" and "norm_index n i = Inr i'" and "norm_index n j = Inr j'"
  shows "setitem3 arr i j 0 v = Inr (arr[i' := (arr ! i')[j' := (arr ! i' ! j')[0 := v]]])"
proof -
  from assms have i': "i' < n" and j': "j' < n" by (auto dest: norm_index_lt)
  from assms(1) have "length arr = n" by (simp add: dense3_def)
  moreover from assms(1) i' have "length (arr ! i') = n" by (rule dense3_nth)
  moreover from assms(1) i' j' have "length (arr ! i' ! j') = 1" by (rule dense3_nth)
  ultimately show ?thesis using assms(2,3)
    by (simp add: setitem3_def norm_index_unit)
qed

lemma setitem3_Inl:
  assumes "dense3 n arr" and "setitem3 arr i j 0 v = Inl e"
  shows "e = IndexError \<and> (norm_index n i = Inl IndexError \<or> norm_index n j = Inl IndexError)"
proof (cases "norm_index n i")
  case (Inl e1)
  then have "e1 = IndexError" by (rule norm_index_error)
  moreover from assms Inl have "e = e1" by (simp add: setitem3_def dense3_def)
  ultimately show ?thesis using Inl by simp
next
  case i: (Inr i')
  then have i': "i' < n" by (rule norm_index_lt)
  with assms(1) have li: "length (arr ! i') = n" by (rule dense3_nth)
  from assms(1) have la: "length arr = n" by (simp add: dense3_def)
  show ?thesis
  proof (cases "norm_index n j")
    case (Inl e1)
    then have "e1 = IndexError" by (rule norm_index_error)
    moreover from assms i Inl la li have "e = e1" by (simp add: setitem3_def)
    ultimately show ?thesis using Inl by simp
  next
    case (Inr j')
    from setitem3_Inr [OF assms(1) i Inr, of v] assms(2) show ?thesis by simp
  qed
qed

lemma dense3_update:
  assumes "dense3 n arr" and "i < n" and "j < n"
  shows "dense3 n (arr[i := (arr ! i)[j := (arr ! i ! j)[0 := v]]])"
  using assms
  by (auto simp: dense3_def list_all_length nth_list_update)

lemma cell_update:
  assumes "dense3 n arr" and "i < n" and "j < n" and "a < n" and "b < n"
  shows "cell (arr[i := (arr ! i)[j := (arr ! i ! j)[0 := v]]]) a b =
         (if a = i \<and> b = j then v else cell arr a b)"
proof -
  from assms(1) have la: "length arr = n" by (simp add: dense3_def)
  from assms(1,2) have li: "length (arr ! i) = n" by (rule dense3_nth)
  from assms(1,2,3) have lc: "length (arr ! i ! j) = 1" by (rule dense3_nth)
  show ?thesis using assms(2-5) la li lc
    by (auto simp: cell_def nth_list_update)
qed

lemma setitem3_write:
  assumes "dense3 n arr" and "norm_index n i = Inr i'" and "norm_index n j = Inr j'"
  shows "\<exists>arr'. setitem3 arr i j 0 v = Inr arr' \<and> dense3 n arr' \<and>
           (\<forall>a<n. \<forall>b<n. cell arr' a b = (if a = i' \<and> b = j' then v else cell arr a b))"
proof -
  from assms have i': "i' < n" and j': "j' < n" by (auto dest: norm_index_lt)
  define arr' where "arr' = arr[i' := (arr ! i')[j' := (arr ! i' ! j')[0 := v]]]"
  have "setitem3 arr i j 0 v = Inr arr'"
    unfolding arr'_def using assms by (rule setitem3_Inr)
  moreover have "dense3 n arr'"
    unfolding arr'_def using assms(1) i' j' by (rule dense3_update)
  moreover have "\<forall>a<n. \<forall>b<n. cell arr' a b = (if a = i' \<and> b = j' then v else cell arr a b)"
    unfolding arr'_def using cell_update [OF assms(1) i' j'] by blast
  ultimately show ?thesis by blast
qed

lemma bin_xl_step:
  assumes d: "dense3 n arr"
    and r1: "norm_index n (py_int r1) = Inr a0" and r2: "norm_index n (py_int r2) = Inr b0"
  shows "\<exists>arr1 arr2.
           setitem3 arr (py_int r1) (py_int r2) 0 (bucketize (1 - fdr) bins) = Inr arr1 \<and>
           setitem3 arr1 (py_int r2) (py_int r1) 0 (bucketize (1 - fdr) bins) = Inr arr2 \<and>
           step_ok n arr (r1, r2, fdr) arr2"
proof -
  define v where "v = bucketize (1 - fdr) bins"
  from setitem3_write [OF d r1 r2, of v] obtain arr1 where
    s1: "setitem3 arr (py_int r1) (py_int r2) 0 v = Inr arr1" and d1: "dense3 n arr1" and
    c1: "\<And>a b. a < n \<Longrightarrow> b < n \<Longrightarrow> cell arr1 a b = (if a = a0 \<and> b = b0 then v else cell arr a b)"
    by blast
  from setitem3_write [OF d1 r2 r1, of v] obtain arr2 where
    s2: "setitem3 arr1 (py_int r2) (py_int r1) 0 v = Inr arr2" and d2: "dense3 n arr2" and
    c2: "\<And>a b. a < n \<Longrightarrow> b < n \<Longrightarrow> cell arr2 a b = (if a = b0 \<and> b = a0 then v else cell arr1 a b)"
    by blast
  have "cell arr2 a b = (if writes n (r1, r2, fdr) a b then bucket (r1, r2, fdr) else cell arr a b)"
    if "a < n" "b < n" for a b
  proof -
    have w: "writes n (r1, r2, fdr) a b \<longleftrightarrow> (a = a0 \<and> b = b0) \<or> (a = b0 \<and> b = a0)"
      by (simp only: writes.simps r1 r2 sum.inject) blast
    have bk: "bucket (r1, r2, fdr) = v" by (simp only: bucket.simps v_def)
    show ?thesis
      unfolding w bk c2 [OF that] c1 [OF that]
      by (cases "a = b0 \<and> b = a0"; cases "a = a0 \<and> b = b0"; simp (no_asm_simp))
  qed
  with d2 have "step_ok n arr (r1, r2, fdr) arr2" by (simp add: step_ok_def)
  with s1 s2 show ?thesis unfolding v_def by blast
qed

lemma bin_xl_loop_Cons_Inr:
  assumes "dense3 n arr" and "bin_xl_loop (entry # xl) arr = Inr out"
  shows "\<exists>arr2. step_ok n arr entry arr2 \<and> in_range n entry \<and> bin_xl_loop xl arr2 = Inr out"
proof -
  obtain r1 r2 fdr where e: "entry = (r1, r2, fdr)" by (cases entry)
  let ?v = "bucketize (1 - fdr) bins"
  from assms e obtain arr1 where s1: "setitem3 arr (py_int r1) (py_int r2) 0 ?v = Inr arr1"
    by (auto simp: Let_def split: sum.splits)
  have "\<not> (norm_index n (py_int r1) = Inl IndexError \<or> norm_index n (py_int r2) = Inl IndexError)"
  proof
    assume "norm_index n (py_int r1) = Inl IndexError \<or> norm_index n (py_int r2) = Inl IndexError"
    with assms(1) have "\<exists>e'. setitem3 arr (py_int r1) (py_int r2) 0 ?v = Inl e'"
      by (auto simp: setitem3_def dense3_def norm_index_lt dense3_nth split: sum.splits)
    with s1 show False by simp
  qed
  then obtain a0 b0 where r1: "norm_index n (py_int r1) = Inr a0"
    and r2: "norm_index n (py_int r2) = Inr b0"
    using norm_index_error by (metis sum.exhaust)
  from bin_xl_step [OF assms(1) r1 r2, of fdr] obtain arr1' arr2 where
    "setitem3 arr (py_int r1) (py_int r2) 0 ?v = Inr arr1'"
    "setitem3 arr1' (py_int r2) (py_int r1) 0 ?v = Inr arr2"
    "step_ok n arr (r1, r2, fdr) arr2" by blast
  moreover with assms(2) e have "bin_xl_loop xl arr2 = Inr out" by (simp add: Let_def)
  moreover from r1 r2 have "in_range n (r1, r2, fdr)" by simp
  ultimately show ?thesis using e by blast
qed


lemma setitem3_out_of_range:
  assumes "dense3 n arr" and "isl (norm_index n i) \<or> isl (norm_index n j)"
  shows "setitem3 arr i j 0 v = Inl IndexError"
proof (cases "setitem3 arr i j 0 v")
  case (Inl e)
  with setitem3_Inl [OF assms(1) Inl] show ?thesis by simp
next
  case (Inr arr')
  have "\<not> isl (norm_index n i) \<and> \<not> isl (norm_index n j)"
  proof (rule ccontr)
    assume "\<not> (\<not> isl (norm_index n i) \<and> \<not> isl (norm_index n j))"
    then consider (i) "isl (norm_index n i)" | (j) "\<not> isl (norm_index n i)" "isl (norm_index n j)"
      by blast
    then show False
    proof cases
      case i
      with assms(1) Inr show False
        by (auto simp: setitem3_def dense3_def isl_def)
    next
      case j
      then obtain i' where i': "norm_index n i = Inr i'" by (cases "norm_index n i") auto
      then have "i' < n" by (rule norm_index_lt)
      with assms(1) have "length (arr ! i') = n" by (rule dense3_nth)
      moreover from assms(1) have "length arr = n" by (simp add: dense3_def)
      ultimately show False using Inr i' j(2)
        by (auto simp: setitem3_def isl_def)
    qed
  qed
  with assms(2) show ?thesis by blast
qed

lemma bin_xl_loop_Cons_out_of_range:
  assumes "dense3 n arr" and "\<not> in_range n entry"
  shows "bin_xl_loop (entry # xl) arr = Inl IndexError"
proof -
  obtain r1 r2 fdr where e: "entry = (r1, r2, fdr)" by (cases entry)
  from assms(2) e have "isl (norm_index n (py_int r1)) \<or> isl (norm_index n (py_int r2))"
    by simp
  with assms(1) have "setitem3 arr (py_int r1) (py_int r2) 0 (bucketize (1 - fdr) bins) = Inl IndexError"
    by (rule setitem3_out_of_range)
  with e show ?thesis by (simp add: Let_def)
qed

lemma bin_xl_loop_Cons_in_range:
  assumes "dense3 n arr" and "in_range n entry"
  shows "\<exists>arr2. step_ok n arr entry arr2 \<and> bin_xl_loop (entry # xl) arr = bin_xl_loop xl arr2"
proof -
  obtain r1 r2 fdr where e: "entry = (r1, r2, fdr)" by (cases entry)
  from assms(2) e obtain a0 b0 where r1: "norm_index n (py_int r1) = Inr a0"
    and r2: "norm_index n (py_int r2) = Inr b0"
    by (cases "norm_index n (py_int r1)"; cases "norm_index n (py_int r2)") auto
  from bin_xl_step [OF assms(1) r1 r2, of fdr] obtain arr1 arr2 where
    "setitem3 arr (py_int r1) (py_int r2) 0 (bucketize (1 - fdr) bins) = Inr arr1"
    "setitem3 arr1 (py_int r2) (py_int r1) 0 (bucketize (1 - fdr) bins) = Inr arr2"
    "step_ok n arr (r1, r2, fdr) arr2" by blast
  then show ?thesis using e by (auto simp: Let_def)
qed

lemma writes_sym: "writes n entry a b \<longleftrightarrow> writes n entry b a"
  by (cases entry) auto

lemma bin_xl_loop_Inl:
  "dense3 n arr \<Longrightarrow> bin_xl_loop xl arr = Inl e \<Longrightarrow>
   e = IndexError \<and> \<not> list_all (in_range n) xl"
proof (induction xl arbitrary: arr)
  case Nil
  then show ?case by simp
next
  case (Cons entry xl)
  show ?case
  proof (cases "in_range n entry")
    case True
    from bin_xl_loop_Cons_in_range [OF Cons.prems(1) True, of xl] obtain arr2 where
      ok: "step_ok n arr entry arr2" and eq: "bin_xl_loop (entry # xl) arr = bin_xl_loop xl arr2"
      by blast
    from ok have "dense3 n arr2" by (simp add: step_ok_def)
    moreover from eq Cons.prems(2) have "bin_xl_loop xl arr2 = Inl e" by simp
    ultimately have "e = IndexError \<and> \<not> list_all (in_range n) xl" by (rule Cons.IH)
    then show ?thesis by simp
  next
    case False
    with bin_xl_loop_Cons_out_of_range [OF Cons.prems(1) False, of xl] Cons.prems(2)
    show ?thesis by simp
  qed
qed

lemma bin_xl_loop_Inr:
  "dense3 n arr \<Longrightarrow> bin_xl_loop xl arr = Inr out \<Longrightarrow>
   dense3 n out \<and>
   (\<forall>a<n. \<forall>b<n. cell out a b = cell arr a b \<or>
      (\<exists>entry\<in>set xl. writes n entry a b \<and> cell out a b = bucket entry)) \<and>
   (\<forall>entry\<in>set xl. \<forall>a<n. \<forall>b<n. writes n entry a b \<longrightarrow>
      (\<exists>entry'\<in>set xl. writes n entry' a b \<and> cell out a b = bucket entry'))"
proof (induction xl arbitrary: arr)
  case Nil
  then show ?case by simp
next
  case (Cons entry xl)
  have inr: "in_range n entry"
  proof (rule ccontr)
    assume "\<not> in_range n entry"
    with bin_xl_loop_Cons_out_of_range [OF Cons.prems(1) this, of xl] Cons.prems(2)
    show False by simp
  qed
  from bin_xl_loop_Cons_in_range [OF Cons.prems(1) inr, of xl] obtain arr2 where
    ok: "step_ok n arr entry arr2" and eq: "bin_xl_loop (entry # xl) arr = bin_xl_loop xl arr2"
    by blast
  from ok have d2: "dense3 n arr2"
    and c2: "\<And>a b. a < n \<Longrightarrow> b < n \<Longrightarrow>
               cell arr2 a b = (if writes n entry a b then bucket entry else cell arr a b)"
    by (simp_all add: step_ok_def)
  from eq Cons.prems(2) have run: "bin_xl_loop xl arr2 = Inr out" by simp
  from Cons.IH [OF d2 run] have d: "dense3 n out"
    and keep: "\<And>a b. a < n \<Longrightarrow> b < n \<Longrightarrow> cell out a b = cell arr2 a b \<or>
      (\<exists>entry\<in>set xl. writes n entry a b \<and> cell out a b = bucket entry)"
    and later: "\<And>e a b. e \<in> set xl \<Longrightarrow> a < n \<Longrightarrow> b < n \<Longrightarrow> writes n e a b \<Longrightarrow>
      (\<exists>entry'\<in>set xl. writes n entry' a b \<and> cell out a b = bucket entry')"
    by blast+
  have 1: "cell out a b = cell arr a b \<or>
      (\<exists>e\<in>set (entry # xl). writes n e a b \<and> cell out a b = bucket e)"
    if "a < n" "b < n" for a b
    using keep [OF that] c2 [OF that] by (cases "writes n entry a b") auto
  have 2: "\<exists>e'\<in>set (entry # xl). writes n e' a b \<and> cell out a b = bucket e'"
    if "e \<in> set (entry # xl)" "a < n" "b < n" "writes n e a b" for e a b
  proof (cases "e \<in> set xl")
    case True
    from later [OF True that(2,3,4)] show ?thesis by auto
  next
    case False
    with that(1) have "e = entry" by simp
    with that(4) c2 [OF that(2,3)] have "cell arr2 a b = bucket entry" by simp
    with keep [OF that(2,3)] \<open>e = entry\<close> that(4) show ?thesis by auto
  qed
  from d 1 2 show ?case by blast
qed

lemma bin_xl_loop_symmetric:
  "dense3 n arr \<Longrightarrow> bin_xl_loop xl arr = Inr out \<Longrightarrow>
   (\<forall>a<n. \<forall>b<n. cell arr a b = cell arr b a) \<Longrightarrow>
   (\<forall>a<n. \<forall>b<n. cell out a b = cell out b a)"
proof (induction xl arbitrary: arr)
  case Nil
  then show ?case by simp
next
  case (Cons entry xl)
  have inr: "in_range n entry"
  proof (rule ccontr)
    assume "\<not> in_range n entry"
    with bin_xl_loop_Cons_out_of_range [OF Cons.prems(1) this, of xl] Cons.prems(2)
    show False by simp
  qed
  from bin_xl_loop_Cons_in_range [OF Cons.prems(1) inr, of xl] obtain arr2 where
    ok: "step_ok n arr entry arr2" and eq: "bin_xl_loop (entry # xl) arr = bin_xl_loop xl arr2"
    by blast
  from ok have d2: "dense3 n arr2"
    and c2: "\<And>a b. a < n \<Longrightarrow> b < n \<Longrightarrow>
               cell arr2 a b = (if writes n entry a b then bucket entry else cell arr a b)"
    by (simp_all add: step_ok_def)
  from eq Cons.prems(2) have run: "bin_xl_loop xl arr2 = Inr out" by simp
  have "\<forall>a<n. \<forall>b<n. cell arr2 a b = cell arr2 b a"
  proof (intro allI impI)
    fix a b assume ab: "a < n" "b < n"
    from c2 [OF ab] c2 [OF ab(2,1)] writes_sym [of n entry a b] Cons.prems(3) ab
    show "cell arr2 a b = cell arr2 b a" by simp
  qed
  with d2 run show ?case by (rule Cons.IH)
qed

lemma set_randperm:
  assumes "mset randperm = mset [0..<length xl]"
  shows "set (map (\<lambda>k. xl ! k) randperm) = set xl"
proof -
  from assms have "set randperm = {0..<length xl}"
    by (metis mset_eq_setD set_upt)
  then have "set (map (\<lambda>k. xl ! k) randperm) = (!) xl ` {0..<length xl}" by simp
  also have "\<dots> = set xl" using nth_image [of "length xl" xl] by simp
  finally show ?thesis .
qed

text \<open>
  Claim C5. For every entry list, every \<open>num_res\<close> and every permutation of the entries:
  \<open>bin_xl\<close> returns whenever all indices are in range (and otherwise raises \<open>IndexError\<close>);
  the array it returns is dense of shape \<open>num_res \<times> num_res \<times> 1\<close> and symmetric,
  \<open>output[i, j, 0] = output[j, i, 0]\<close> for all \<open>i\<close>, \<open>j\<close>; every cell is zero or holds
  \<open>bucketize(1 - fdr, bins)\<close> of an entry that writes to it, and every cell an entry writes to
  holds that value for some entry writing to it; \<open>bins\<close> are the 21 thresholds
  \<open>0, 0.05, \<dots>, 1\<close>.
\<close>

theorem bin_xl_spec:
  assumes "mset randperm = mset [0..<length xl]"
  shows "(list_all (in_range num_res) xl \<longrightarrow>
            (\<exists>output. bin_xl randperm xl num_res = Inr output)) \<and>
         (\<forall>output. bin_xl randperm xl num_res = Inr output \<longrightarrow>
            dense3 num_res output \<and>
            (\<forall>i<num_res. \<forall>j<num_res. cell output i j = cell output j i) \<and>
            (\<forall>i<num_res. \<forall>j<num_res. cell output i j = 0 \<or>
               (\<exists>entry\<in>set xl. writes num_res entry i j \<and> cell output i j = bucket entry)) \<and>
            (\<forall>entry\<in>set xl. \<forall>i<num_res. \<forall>j<num_res. writes num_res entry i j \<longrightarrow>
               (\<exists>entry'\<in>set xl. writes num_res entry' i j \<and> cell output i j = bucket entry'))) \<and>
         (\<forall>e. bin_xl randperm xl num_res = Inl e \<longrightarrow>
            e = IndexError \<and> \<not> list_all (in_range num_res) xl) \<and>
         bins = [0, 1 / 20, 2 / 20, 3 / 20, 4 / 20, 5 / 20, 6 / 20, 7 / 20, 8 / 20, 9 / 20, 10 / 20,
                 11 / 20, 12 / 20, 13 / 20, 14 / 20, 15 / 20, 16 / 20, 17 / 20, 18 / 20, 19 / 20, 1]"
proof -
  let ?xl = "map (\<lambda>k. xl ! k) randperm"
  let ?z = "zeros3 num_res num_res 1"
  have s: "set ?xl = set xl" using assms by (rule set_randperm)
  then have la: "list_all (in_range num_res) ?xl \<longleftrightarrow> list_all (in_range num_res) xl"
    by (simp only: list_all_iff)
  have d: "dense3 num_res ?z" by (rule dense3_zeros3)
  have run: "bin_xl randperm xl num_res = bin_xl_loop ?xl ?z" by (simp add: bin_xl_def)
  have err: "e = IndexError \<and> \<not> list_all (in_range num_res) xl"
    if "bin_xl randperm xl num_res = Inl e" for e
    using bin_xl_loop_Inl [OF d, of ?xl e] that run la by simp
  have total: "\<exists>output. bin_xl randperm xl num_res = Inr output"
    if "list_all (in_range num_res) xl"
    using err that by (cases "bin_xl randperm xl num_res") auto
  have ok: "dense3 num_res output \<and>
            (\<forall>i<num_res. \<forall>j<num_res. cell output i j = cell output j i) \<and>
            (\<forall>i<num_res. \<forall>j<num_res. cell output i j = 0 \<or>
               (\<exists>entry\<in>set xl. writes num_res entry i j \<and> cell output i j = bucket entry)) \<and>
            (\<forall>entry\<in>set xl. \<forall>i<num_res. \<forall>j<num_res. writes num_res entry i j \<longrightarrow>
               (\<exists>entry'\<in>set xl. writes num_res entry' i j \<and> cell output i j = bucket entry'))"
    if res: "bin_xl randperm xl num_res = Inr output" for "output"
  proof -
    from res run have r: "bin_xl_loop ?xl ?z = Inr output" by simp
    have z: "\<forall>a<num_res. \<forall>b<num_res. cell ?z a b = cell ?z b a"
      by (simp add: cell_zeros3_Suc)
    from bin_xl_loop_symmetric [OF d r z]
    have sym: "\<forall>i<num_res. \<forall>j<num_res. cell output i j = cell output j i" .
    from bin_xl_loop_Inr [OF d r] have d': "dense3 num_res output"
      and keep: "\<forall>a<num_res. \<forall>b<num_res. cell output a b = cell ?z a b \<or>
        (\<exists>entry\<in>set ?xl. writes num_res entry a b \<and> cell output a b = bucket entry)"
      and later: "\<forall>entry\<in>set ?xl. \<forall>a<num_res. \<forall>b<num_res. writes num_res entry a b \<longrightarrow>
        (\<exists>entry'\<in>set ?xl. writes num_res entry' a b \<and> cell output a b = bucket entry')"
      by blast+
    from keep have keep': "\<forall>i<num_res. \<forall>j<num_res. cell output i j = 0 \<or>
               (\<exists>entry\<in>set xl. writes num_res entry i j \<and> cell output i j = bucket entry)"
      unfolding s by (simp add: cell_zeros3_Suc)
    from d' sym keep' later [unfolded s] show ?thesis by blast
  qed
  have b: "bins = [0, 1 / 20, 2 / 20, 3 / 20, 4 / 20, 5 / 20, 6 / 20, 7 / 20, 8 / 20, 9 / 20, 10 / 20,
                 11 / 20, 12 / 20, 13 / 20, 14 / 20, 15 / 20, 16 / 20, 17 / 20, 18 / 20, 19 / 20, 1]"
    by (simp add: bins_def upt_rec)
  from total ok err b show ?thesis by blast
qed


theorem bin_xl_spec_witness:
  "mset [1, 0] = mset [0..<length example_xl] \<and>
   list_all (in_range 2) example_xl \<and>
   bin_xl [1, 0] example_xl 2 = Inr [[[0], [18]], [[18], [0]]] \<and>
   bin_xl [0, 1] example_xl 2 = Inr [[[0], [10]], [[10], [0]]] \<and>
   (0, 1, 1 / 10) \<in> set example_xl \<and> writes 2 (0, 1, 1 / 10) 0 1 \<and>
   cell [[[0], [18]], [[18], [0 :: nat]]] 0 1 = cell [[[0], [18]], [[18], [0 :: nat]]] 1 0 \<and>
   cell [[[0], [18]], [[18], [0 :: nat]]] 0 1 = bucket (0, 1, 1 / 10) \<and>
   cell [[[0], [10]], [[10], [0 :: nat]]] 0 1 = bucket (1, 0, 1 / 2)"
proof -
  have p: "mset [1, 0] = mset [0..<length example_xl]"
    by (simp add: example_xl_def upt_rec)
  have r: "list_all (in_range 2) example_xl"
    by (simp add: example_xl_def py_int_def norm_index_def)
  have b1: "bin_xl [1, 0] example_xl 2 = Inr [[[0], [18]], [[18], [0]]]"
    by code_simp
  have b2: "bin_xl [0, 1] example_xl 2 = Inr [[[0], [10]], [[10], [0]]]"
    by code_simp
  have w: "writes 2 (0, 1, 1 / 10) 0 1"
    by (simp add: py_int_def norm_index_def)
  have k1: "bucket (0, 1, 1 / 10) = 18" by code_simp
  have k2: "bucket (1, 0, 1 / 2) = 10" by code_simp
  from bin_xl_spec [OF p, of 2] p r b1 b2 w k1 k2 show ?thesis
    by (simp add: cell_def example_xl_def)
qed

section \<open>The symmetry transform\<close>

lemma round_trip_vec:
  fixes x y z :: "'a::comm_ring_1"
  assumes "orthogonal [a, b, c, d, e, f, g, h, i]"
  shows "vec_add (vec_matmul (vec_add (vec_matmul (x, y, z) (transpose_3_3 ((a, b, c), (d, e, f), (g, h, i)))) (t0, t1, t2))
            (transpose_3_3 ((a, d, g), (b, e, h), (c, f, i))))
           (- (t0 * a + t1 * d + t2 * g), - (t0 * b + t1 * e + t2 * h), - (t0 * c + t1 * f + t2 * i))
         = (x, y, z)"
proof -
  from assms have o:
    "a * a + d * d + g * g = 1" "a * b + d * e + g * h = 0" "a * c + d * f + g * i = 0"
    "b * a + e * d + h * g = 0" "b * b + e * e + h * h = 1" "b * c + e * f + h * i = 0"
    "c * a + f * d + i * g = 0" "c * b + f * e + i * h = 0" "c * c + f * f + i * i = 1"
    by simp_all
  have 1: "(x * a + y * b + z * c + t0) * a + (x * d + y * e + z * f + t1) * d +
           (x * g + y * h + z * i + t2) * g + - (t0 * a + t1 * d + t2 * g) =
           x * (a * a + d * d + g * g) + y * (b * a + e * d + h * g) + z * (c * a + f * d + i * g)"
    by (simp add: algebra_simps)
  have 2: "(x * a + y * b + z * c + t0) * b + (x * d + y * e + z * f + t1) * e +
           (x * g + y * h + z * i + t2) * h + - (t0 * b + t1 * e + t2 * h) =
           x * (a * b + d * e + g * h) + y * (b * b + e * e + h * h) + z * (c * b + f * e + i * h)"
    by (simp add: algebra_simps)
  have 3: "(x * a + y * b + z * c + t0) * c + (x * d + y * e + z * f + t1) * f +
           (x * g + y * h + z * i + t2) * i + - (t0 * c + t1 * f + t2 * i) =
           x * (a * c + d * f + g * i) + y * (b * c + e * f + h * i) + z * (c * c + f * f + i * i)"
    by (simp add: algebra_simps)
  show ?thesis
    by (simp only: transpose_3_3.simps vec_matmul.simps vec_add.simps 1 2 3 o Pair_inject
        mult_1_right mult_zero_right add_0_right add_0_left)
qed


lemma map_map_id:
  assumes "\<And>v. g (f v) = v"
  shows "map (map g) (map (map f) ps) = ps"
proof -
  from assms have "g \<circ> f = id" by (simp add: fun_eq_iff)
  then show ?thesis by (simp add: map_idI)
qed

lemma affine_vec:
  "(\<lambda>v. vec_add (vec_matmul v ((a, d, g), (b, e, h), (c, f, i))) (t0, t1, t2)) =
   (\<lambda>(x, y, z). (x * a + y * b + z * c + t0, x * d + y * e + z * f + t1,
                   x * g + y * h + z * i + t2))"
  by (auto simp: fun_eq_iff)

text \<open>
  Claim C2. For every coordinate array the operation \<open>"I"\<close> returns the array unchanged; for
  every rotation \<open>R\<close> and translation \<open>t\<close> the operation \<open>(R, t)\<close> returns
  \<open>positions \<cdot> R\<^sup>T + t\<close>, that is, it maps each atom \<open>x\<close> to \<open>R x + t\<close>; and when \<open>R\<close> is
  orthogonal, applying \<open>(R, t)\<close> and then the inverse operation \<open>(R\<^sup>T, - t R)\<close> returns the
  original array (exactly, the arithmetic being exact).
\<close>

theorem process_label_spec:
  fixes all_atom_positions :: "'a::comm_ring_1 positions"
  shows
    "process_label all_atom_positions (OpStr ''I'') = Inr all_atom_positions \<and>
     process_label all_atom_positions (OpPair [a, b, c, d, e, f, g, h, i] [t0, t1, t2]) =
       Inr (map (map (\<lambda>(x, y, z). (x * a + y * b + z * c + t0,
                                     x * d + y * e + z * f + t1,
                                     x * g + y * h + z * i + t2))) all_atom_positions) \<and>
     (orthogonal [a, b, c, d, e, f, g, h, i] \<and>
      process_label all_atom_positions (OpPair [a, b, c, d, e, f, g, h, i] [t0, t1, t2]) = Inr moved \<longrightarrow>
      process_label moved (inverse_operation [a, b, c, d, e, f, g, h, i] [t0, t1, t2]) =
        Inr all_atom_positions)"
proof (intro conjI impI)
  show "process_label all_atom_positions (OpStr ''I'') = Inr all_atom_positions"
    by (simp add: process_label_def)
next
  show "process_label all_atom_positions (OpPair [a, b, c, d, e, f, g, h, i] [t0, t1, t2]) =
       Inr (map (map (\<lambda>(x, y, z). (x * a + y * b + z * c + t0,
                                     x * d + y * e + z * f + t1,
                                     x * g + y * h + z * i + t2))) all_atom_positions)"
    by (simp add: process_label_def affine_vec)
next
  assume h: "orthogonal [a, b, c, d, e, f, g, h, i] \<and>
      process_label all_atom_positions (OpPair [a, b, c, d, e, f, g, h, i] [t0, t1, t2]) = Inr moved"
  then have o: "orthogonal [a, b, c, d, e, f, g, h, i]" by simp
  let ?f = "\<lambda>v. vec_add (vec_matmul v (transpose_3_3 ((a, b, c), (d, e, f), (g, h, i)))) (t0, t1, t2)"
  let ?g = "\<lambda>v. vec_add (vec_matmul v (transpose_3_3 ((a, d, g), (b, e, h), (c, f, i))))
     (- (t0 * a + t1 * d + t2 * g), - (t0 * b + t1 * e + t2 * h), - (t0 * c + t1 * f + t2 * i))"
  from h have m: "moved = map (map ?f) all_atom_positions"
    by (simp add: process_label_def)
  have inv_run: "process_label moved (inverse_operation [a, b, c, d, e, f, g, h, i] [t0, t1, t2]) =
      Inr (map (map ?g) moved)"
    by (simp add: process_label_def)
  have "?g (?f v) = v" for v
    using round_trip_vec [OF o] by (cases v) simp
  then have "map (map ?g) (map (map ?f) all_atom_positions) = all_atom_positions"
    by (rule map_map_id)
  with inv_run m show "process_label moved (inverse_operation [a, b, c, d, e, f, g, h, i] [t0, t1, t2]) =
        Inr all_atom_positions" by simp
qed


theorem process_label_spec_witness:
  "orthogonal [0, -1, 0, 1, 0, 0, 0, 0, 1 :: rat] \<and>
   process_label example_positions (OpPair [0, -1, 0, 1, 0, 0, 0, 0, 1] [1, 0, 0]) =
     Inr [[(1, 1, 0), (0, 0, 0)], [(-1, 1, 3)]] \<and>
   process_label [[(1, 1, 0), (0, 0, 0)], [(-1, 1, 3)]]
     (inverse_operation [0, -1, 0, 1, 0, 0, 0, 0, 1] [1, 0, 0]) = Inr example_positions"
proof -
  have o: "orthogonal [0, -1, 0, 1, 0, 0, 0, 0, 1 :: rat]" by simp
  have m: "process_label example_positions (OpPair [0, -1, 0, 1, 0, 0, 0, 0, 1] [1, 0, 0]) =
     Inr [[(1, 1, 0), (0, 0, 0)], [(-1, 1, 3)]]"
    by (simp add: process_label_def example_positions_def)
  from process_label_spec [of example_positions 0 "-1" 0 1 0 0 0 0 1 1 0 0
      "[[(1, 1, 0), (0, 0, 0)], [(-1, 1, 3)]]"] o m
  have "process_label [[(1, 1, 0), (0, 0, 0)], [(-1, 1, 3)]]
     (inverse_operation [0, -1, 0, 1, 0, 0, 0, 0, 1] [1, 0, 0]) = Inr example_positions"
    by blast
  with o m show ?thesis by blast
qed

section \<open>The assembly builder\<close>

lemma reads_only_refl: "reads_only P s s"
  by (simp add: reads_only_def)

lemma reads_only_trans: "reads_only P s s1 \<Longrightarrow> reads_only P s1 s2 \<Longrightarrow> reads_only P s s2"
  by (auto simp: reads_only_def)

lemma reads_only_cache: "reads_only P s s' \<Longrightarrow> reads_only P s (s'\<lparr>cache := c\<rparr>)"
  by (simp add: reads_only_def)

lemma suffix_path_join: "suffix b (path_join a b)"
  by (simp add: path_join_def suffix_def)

lemma reads_only_load_pickle:
  assumes "P path" and "load_pickle files path s = (r, s')"
  shows "reads_only P s s'"
  using assms by (auto simp: load_pickle_def reads_only_def)

lemma reads_only_bind:
  assumes "\<And>s r s'. m s = (r, s') \<Longrightarrow> reads_only P s s'"
    and "\<And>x s r s'. f x s = (r, s') \<Longrightarrow> reads_only P s s'"
    and "bind m f s = (r, s')"
  shows "reads_only P s s'"
proof (cases "m s")
  case (Pair r1 s1)
  then have 1: "reads_only P s s1" by (rule assms(1))
  show ?thesis
  proof (cases r1)
    case (Inl e)
    with Pair assms(3) have "s' = s1" by (simp add: bind_def)
    with 1 show ?thesis by simp
  next
    case (Inr x)
    with Pair assms(3) have "f x s1 = (r, s')" by (simp add: bind_def)
    then have "reads_only P s1 s'" by (rule assms(2))
    with 1 show ?thesis by (rule reads_only_trans)
  qed
qed

lemma reads_only_lift: "lift x s = (r, s') \<Longrightarrow> reads_only P s s'"
  by (auto simp: lift_def reads_only_refl)

lemma reads_only_return: "return x s = (r, s') \<Longrightarrow> reads_only P s s'"
  by (auto simp: return_def reads_only_refl)

lemma reads_only_for_each:
  assumes "\<And>x s r s'. f x s = (r, s') \<Longrightarrow> reads_only P s s'"
  shows "for_each f xs s = (r, s') \<Longrightarrow> reads_only P s s'"
proof (induction xs arbitrary: s r s')
  case Nil
  then show ?case by (simp add: reads_only_return)
next
  case (Cons x xs)
  from Cons.prems show ?case
    apply (simp only: for_each.simps)
    apply (erule reads_only_bind [rotated 2])
     apply (erule assms)
    apply (erule reads_only_bind [rotated 2])
     apply (erule Cons.IH)
    apply (erule reads_only_return)
    done
qed

lemma feature_file_feature: "feature_file (path_join d (sid @ ''.feature.pkl.gz''))"
proof -
  have "suffix ''.feature.pkl.gz'' (sid @ ''.feature.pkl.gz'')" by (rule suffixI) simp
  then show ?thesis
    unfolding feature_file_def using suffix_path_join suffix_order.trans by blast
qed

lemma feature_file_uniprot: "feature_file (path_join d (sid @ ''.uniprot.pkl.gz''))"
proof -
  have "suffix ''.uniprot.pkl.gz'' (sid @ ''.uniprot.pkl.gz'')" by (rule suffixI) simp
  then show ?thesis
    unfolding feature_file_def using suffix_path_join suffix_order.trans by blast
qed

lemma reads_only_body:
  assumes "load_single_feature_body files ext key s = (r, s')"
  shows "reads_only feature_file s s'"
proof -
  obtain sid d u m where key: "key = (sid, d, u, m)" by (cases key)
  from assms show ?thesis
    unfolding load_single_feature_body_def key prod.case
    apply (erule_tac reads_only_bind [rotated 2])
     apply (erule reads_only_load_pickle [rotated], rule feature_file_feature)
    apply (erule reads_only_bind [rotated 2])
     apply (erule reads_only_lift)
    apply (cases u)
     apply (simp add: reads_only_return)
    apply simp
    apply (erule reads_only_bind [rotated 2])
     apply (erule reads_only_load_pickle [rotated], rule feature_file_uniprot)
    apply (auto split: if_splits dest: reads_only_lift)
    done
qed

lemma reads_only_load_single_feature:
  assumes "load_single_feature files ext sid d u m s = (r, s')"
  shows "reads_only feature_file s s'"
proof (cases "map_of (cache s) (sid, d, u, m)")
  case (Some v)
  with assms have "s' = s\<lparr>cache := ((sid, d, u, m), v) # filter (\<lambda>(k, _). k \<noteq> (sid, d, u, m)) (cache s)\<rparr>"
    by (auto simp: load_single_feature_def lru_cache_def)
  then show ?thesis by (simp add: reads_only_def)
next
  case None
  obtain r1 s1 where b: "load_single_feature_body files ext (sid, d, u, m) s = (r1, s1)"
    by (cases "load_single_feature_body files ext (sid, d, u, m) s")
  then have 1: "reads_only feature_file s s1" by (rule reads_only_body)
  from assms None b have "reads s' = reads s1"
    by (auto simp: load_single_feature_def lru_cache_def split: sum.splits)
  with 1 show ?thesis by (simp add: reads_only_def)
qed

lemma reads_only_load_chain_features:
  assumes "load_chain_features files ext sids d u m s = (r, s')"
  shows "reads_only feature_file s s'"
  using assms unfolding load_chain_features_def
  by (rule reads_only_for_each [rotated]) (erule reads_only_load_single_feature)



text \<open>
  Claim C4, as amended. When \<open>label_ids\<close> is given and its length differs from that of
  \<open>sequence_ids\<close>, \<open>load\<close> fails: with the error of the feature loading if that fails, and
  otherwise with the assertion error; in both cases the state is the one the feature loading
  left, so only feature files were opened and no label was loaded. When the lengths are equal,
  a label directory is given and the features load, \<open>load\<close> with no symmetry operations is
  \<open>load\<close> with the identity operation for every label: it loads the labels under \<open>"I"\<close>
  and, if that succeeds, finishes with the features updated by them.
\<close>

theorem load_label_check:
  "(label_ids = Some ls \<and> length ls \<noteq> length sequence_ids \<longrightarrow>
      load files ext sequence_ids monomer_feature_dir uniprot_msa_dir label_ids label_dir
           symmetry_operations is_monomer s =
        (case load_chain_features files ext sequence_ids monomer_feature_dir uniprot_msa_dir
                is_monomer s of
           (Inl e, s') \<Rightarrow> (Inl e, s')
         | (Inr all_chain_features, s') \<Rightarrow> (Inl (AssertionError []), s')) \<and>
      isl (fst (load files ext sequence_ids monomer_feature_dir uniprot_msa_dir label_ids label_dir
                  symmetry_operations is_monomer s)) \<and>
      reads_only feature_file s
        (snd (load files ext sequence_ids monomer_feature_dir uniprot_msa_dir label_ids label_dir
                symmetry_operations is_monomer s))) \<and>
   (label_ids = Some ls \<and> length ls = length sequence_ids \<and> label_dir = Some dir \<and>
    load_chain_features files ext sequence_ids monomer_feature_dir uniprot_msa_dir is_monomer s =
      (Inr all_chain_features, s1) \<longrightarrow>
      load files ext sequence_ids monomer_feature_dir uniprot_msa_dir label_ids label_dir
           None is_monomer s =
        load files ext sequence_ids monomer_feature_dir uniprot_msa_dir label_ids label_dir
           (Some (replicate (length ls) (OpStr ''I''))) is_monomer s \<and>
      load files ext sequence_ids monomer_feature_dir uniprot_msa_dir label_ids label_dir
           None is_monomer s =
        (case load_chain_labels files ls dir (replicate (length ls) (OpStr ''I'')) s1 of
           (Inl e, s2) \<Rightarrow> (Inl e, s2)
         | (Inr all_chain_labels, s2) \<Rightarrow>
             (finish_load ext True is_monomer (update_labels all_chain_features all_chain_labels),
              s2)))"
proof (intro conjI impI)
  assume h: "label_ids = Some ls \<and> length ls \<noteq> length sequence_ids"
  let ?feats = "load_chain_features files ext sequence_ids monomer_feature_dir uniprot_msa_dir
                is_monomer s"
  let ?load = "load files ext sequence_ids monomer_feature_dir uniprot_msa_dir label_ids label_dir
           symmetry_operations is_monomer s"
  show eq: "?load = (case ?feats of
           (Inl e, s') \<Rightarrow> (Inl e, s')
         | (Inr all_chain_features, s') \<Rightarrow> (Inl (AssertionError []), s'))"
    using h by (auto simp: load_def bind_def raise_def split: prod.splits sum.splits)
  show "isl (fst ?load)"
    unfolding eq by (auto split: prod.splits sum.splits)
  obtain r s' where f: "?feats = (r, s')" by (cases ?feats)
  then have "reads_only feature_file s s'" by (rule reads_only_load_chain_features)
  moreover from f have "snd ?load = s'" unfolding eq by (auto split: sum.splits)
  ultimately show "reads_only feature_file s (snd ?load)" by simp
next
  assume h: "label_ids = Some ls \<and> length ls = length sequence_ids \<and> label_dir = Some dir \<and>
    load_chain_features files ext sequence_ids monomer_feature_dir uniprot_msa_dir is_monomer s =
      (Inr all_chain_features, s1)"
  have r: "map (\<lambda>_. OpStr ''I'') ls = replicate (length ls) (OpStr ''I'')"
    by (simp add: map_replicate_const)
  show "load files ext sequence_ids monomer_feature_dir uniprot_msa_dir label_ids label_dir
           None is_monomer s =
        load files ext sequence_ids monomer_feature_dir uniprot_msa_dir label_ids label_dir
           (Some (replicate (length ls) (OpStr ''I''))) is_monomer s"
    using h by (simp add: load_def r)
  show "load files ext sequence_ids monomer_feature_dir uniprot_msa_dir label_ids label_dir
           None is_monomer s =
        (case load_chain_labels files ls dir (replicate (length ls) (OpStr ''I'')) s1 of
           (Inl e, s2) \<Rightarrow> (Inl e, s2)
         | (Inr all_chain_labels, s2) \<Rightarrow>
             (finish_load ext True is_monomer (update_labels all_chain_features all_chain_labels),
              s2))"
    using h by (auto simp: load_def r bind_def return_def lift_def split: prod.splits sum.splits)
qed


theorem load_label_check_witness:
  "(Some [''l1'', ''l2''] = Some [''l1'', ''l2''] \<and> length [''l1'', ''l2''] \<noteq> length [''s1'']) \<and>
   load example_files identity_externals [''s1''] ''features'' None (Some [''l1'', ''l2''])
     (Some ''labels'') None True fresh = (Inl (AssertionError []), after_features) \<and>
   reads_only feature_file fresh after_features \<and>
   (Some [''l1''] = Some [''l1''] \<and> length [''l1''] = length [''s1''] \<and>
    Some ''labels'' = Some ''labels'' \<and>
    load_chain_features example_files identity_externals [''s1''] ''features'' None True fresh =
      (Inr [example_feature], after_features)) \<and>
   load example_files identity_externals [''s1''] ''features'' None (Some [''l1''])
     (Some ''labels'') None True fresh =
   load example_files identity_externals [''s1''] ''features'' None (Some [''l1''])
     (Some ''labels'') (Some [OpStr ''I'']) True fresh \<and>
   fst (load example_files identity_externals [''s1''] ''features'' None (Some [''l1''])
     (Some ''labels'') None True fresh) =
     Inr ([(''aatype'', Nd (Array [Scalar 0, Scalar 4])),
           (''seq_length'', Nd (Scalar 2)),
           (''all_atom_positions'', Positions example_positions),
           (''all_atom_mask'', Nd (Array [Array [Scalar 1, Scalar 1], Array [Scalar 1]])),
           (''resolution'', Nd (Scalar 2)),
           (''asym_len'', Nd (Array [Scalar 2]))],
          Some [[(''aatype'', Nd (Array [Scalar 0, Scalar 4])),
                 (''all_atom_positions'', Positions example_positions),
                 (''all_atom_mask'', Nd (Array [Array [Scalar 1, Scalar 1], Array [Scalar 1]])),
                 (''resolution'', Nd (Scalar 2))]])"
proof -
  have f: "load_chain_features example_files identity_externals [''s1''] ''features'' None True fresh =
      (Inr [example_feature], after_features)"
    by code_simp
  have a: "Some [''l1'', ''l2''] = Some [''l1'', ''l2''] \<and> length [''l1'', ''l2''] \<noteq> length [''s1'']"
    by simp
  have b: "Some [''l1''] = Some [''l1''] \<and> length [''l1''] = length [''s1''] \<and>
    Some ''labels'' = Some ''labels'' \<and>
    load_chain_features example_files identity_externals [''s1''] ''features'' None True fresh =
      (Inr [example_feature], after_features)"
    using f by simp
  have v: "fst (load example_files identity_externals [''s1''] ''features'' None (Some [''l1''])
     (Some ''labels'') None True fresh) =
     Inr ([(''aatype'', Nd (Array [Scalar 0, Scalar 4])),
           (''seq_length'', Nd (Scalar 2)),
           (''all_atom_positions'', Positions example_positions),
           (''all_atom_mask'', Nd (Array [Array [Scalar 1, Scalar 1], Array [Scalar 1]])),
           (''resolution'', Nd (Scalar 2)),
           (''asym_len'', Nd (Array [Scalar 2]))],
          Some [[(''aatype'', Nd (Array [Scalar 0, Scalar 4])),
                 (''all_atom_positions'', Positions example_positions),
                 (''all_atom_mask'', Nd (Array [Array [Scalar 1, Scalar 1], Array [Scalar 1]])),
                 (''resolution'', Nd (Scalar 2))]])"
    by code_simp
  note t1 = load_label_check [of "Some [''l1'', ''l2'']" "[''l1'', ''l2'']" "[''s1'']"
      example_files identity_externals "''features''" None "Some ''labels''" None True fresh
      "''labels''" "[example_feature]" after_features]
  note t2 = load_label_check [of "Some [''l1'']" "[''l1'']" "[''s1'']"
      example_files identity_externals "''features''" None "Some ''labels''" None True fresh
      "''labels''" "[example_feature]" after_features]
  from t1 a f have 1: "load example_files identity_externals [''s1''] ''features'' None
     (Some [''l1'', ''l2'']) (Some ''labels'') None True fresh = (Inl (AssertionError []), after_features)"
    by simp
  from t1 a have "reads_only feature_file fresh
        (snd (load example_files identity_externals [''s1''] ''features'' None
     (Some [''l1'', ''l2'']) (Some ''labels'') None True fresh))" by blast
  with 1 have 2: "reads_only feature_file fresh after_features" by simp
  from t2 b have 3: "load example_files identity_externals [''s1''] ''features'' None (Some [''l1''])
     (Some ''labels'') None True fresh =
   load example_files identity_externals [''s1''] ''features'' None (Some [''l1''])
     (Some ''labels'') (Some [OpStr ''I'']) True fresh" by simp
  from a 1 2 b 3 v show ?thesis by blast
qed

text \<open>
  The length check comes after the features are loaded, and a second assertion follows it:
  with mismatched lengths and a missing feature file the call fails with the lookup error,
  not the assertion error; with equal lengths and no label directory it fails with an
  assertion error instead of proceeding.
\<close>

theorem load_label_check_counterexample:
  "fst (load no_files identity_externals [''s1''] ''features'' None (Some [''l1'', ''l2''])
          (Some ''labels'') None True fresh) =
     Inl (FileNotFoundError ''features/s1.feature.pkl.gz'') \<and>
   FileNotFoundError ''features/s1.feature.pkl.gz'' \<noteq> AssertionError [] \<and>
   length [''l1'', ''l2''] \<noteq> length [''s1''] \<and>
   fst (load example_files identity_externals [''s1''] ''features'' None (Some [''l1''])
          None None True fresh) = Inl (AssertionError []) \<and>
   length [''l1''] = length [''s1'']"
proof -
  have 1: "fst (load no_files identity_externals [''s1''] ''features'' None (Some [''l1'', ''l2''])
          (Some ''labels'') None True fresh) =
     Inl (FileNotFoundError ''features/s1.feature.pkl.gz'')"
    by code_simp
  have 2: "fst (load example_files identity_externals [''s1''] ''features'' None (Some [''l1''])
          None None True fresh) = Inl (AssertionError [])"
    by code_simp
  from 1 2 show ?thesis by simp
qed

section \<open>Self-distillation is switched off\<close>

lemma init_disable_sd:
  "init files world_size args seed config_data data_path mode max_step disable_sd json_prefix =
   init files world_size args seed config_data data_path mode max_step True json_prefix"
  by (simp add: init_def)

lemma init_sd_sample_weight:
  assumes "init files world_size args seed config_data data_path mode max_step disable_sd json_prefix
           = Inr self"
  shows "self_sd_sample_weight self = None"
  using assms
  by (auto simp: init_def try_e_def Let_def split: sum.splits prod.splits option.splits if_splits)

lemma bind_Inr:
  "bind m f s = (Inr y, s') \<Longrightarrow> \<exists>x s1. m s = (Inr x, s1) \<and> f x s1 = (Inr y, s')"
  by (auto simp: bind_def split: prod.splits sum.splits)

lemma numpy_seed_Inr:
  "numpy_seed rng seed addl key body g = (Inr y, g') \<Longrightarrow>
   \<exists>g1. body (seed_state rng (hash_seed rng seed addl key)) = (Inr y, g1)"
  by (auto simp: numpy_seed_def Let_def split: prod.splits)

lemma sample_chain_no_distillation:
  assumes "self_sd_sample_weight self = None"
    and "sample_chain rng self idx sample_by_seq g = (Inr (seq_name, label_name, is_distillation), g')"
  shows "\<not> is_distillation"
proof (cases "self_mode self = ''train''")
  case True
  with assms(2) obtain g0 g1 where
    "bind (return False)
       (\<lambda>is_distillation.
                if is_distillation then
                  bind (lift (case (self_sd_num_chain self, self_sd_sample_prob self,
                                    self_sd_chain_keys self) of
                                (Some n, Some p, Some ks) \<Rightarrow> Inr (n, p, ks)
                              | _ \<Rightarrow> Inl (AttributeError ''sd_num_chain'')))
                    (\<lambda>(sd_num_chain, sd_sample_prob, sd_chain_keys).
                  bind (choice rng sd_num_chain (Some sd_sample_prob)) (\<lambda>prot_idx.
                  bind (lift (list_get sd_chain_keys prot_idx)) (\<lambda>label_name.
                  return (label_name, label_name, is_distillation))))
                else if \<not> sample_by_seq then
                  bind (choice rng (self_num_chain self) (Some (self_sample_prob self))) (\<lambda>prot_idx.
                  bind (lift (list_get (self_chain_keys self) prot_idx)) (\<lambda>label_name.
                  bind (lift (getitem (self_inverse_multi_label self) label_name)) (\<lambda>seq_name.
                  return (seq_name, label_name, is_distillation))))
                else
                  bind (choice rng (self_num_seq self) (Some (self_seq_sample_prob self))) (\<lambda>seq_idx.
                  bind (lift (list_get (self_seq_keys self) seq_idx)) (\<lambda>seq_name.
                  bind (lift (getitem (self_multi_label self) seq_name)) (\<lambda>labels.
                  bind (choice rng (length labels) None) (\<lambda>i.
                  bind (lift (list_get labels i)) (\<lambda>label_name.
                  return (seq_name, label_name, is_distillation))))))) g0
     = (Inr (seq_name, label_name, is_distillation), g1)"
    using assms(1) by (auto simp: sample_chain_def dest!: numpy_seed_Inr)
  then show ?thesis
    by (auto simp: return_def dest!: bind_Inr split: if_splits)
next
  case False
  with assms(2) show ?thesis
    by (auto simp: sample_chain_def return_def dest!: bind_Inr)
qed

text \<open>
  Claim C10. Whatever \<open>disable_sd\<close> is passed, \<open>__init__\<close> does what it does for
  \<open>disable_sd = True\<close>; so in every dataset it constructs, also with an existing
  self-distillation weight file, \<open>sd_sample_weight\<close> is \<open>None\<close>, and whatever \<open>sample_chain\<close>
  returns, for every index, in every mode and from every state of the random generator, has
  \<open>is_distillation = False\<close>.
\<close>

theorem init_forces_disable_sd:
  "init files world_size args seed config_data data_path mode max_step disable_sd json_prefix =
   init files world_size args seed config_data data_path mode max_step True json_prefix \<and>
   (init files world_size args seed config_data data_path mode max_step disable_sd json_prefix
      = Inr self \<longrightarrow>
    self_sd_sample_weight self = None \<and>
    (\<forall>rng idx sample_by_seq g seq_name label_name is_distillation g'.
       sample_chain rng self idx sample_by_seq g =
         (Inr (seq_name, label_name, is_distillation), g') \<longrightarrow> \<not> is_distillation))"
proof (intro conjI impI allI)
  show "init files world_size args seed config_data data_path mode max_step disable_sd json_prefix =
   init files world_size args seed config_data data_path mode max_step True json_prefix"
    by (rule init_disable_sd)
next
  assume "init files world_size args seed config_data data_path mode max_step disable_sd json_prefix
      = Inr self"
  then show none: "self_sd_sample_weight self = None" by (rule init_sd_sample_weight)
  fix rng :: "'g np_random" and idx sample_by_seq g seq_name label_name is_distillation g'
  assume "sample_chain rng self idx sample_by_seq g =
         (Inr (seq_name, label_name, is_distillation), g')"
  with none show "\<not> is_distillation" by (rule sample_chain_no_distillation)
qed




theorem init_forces_disable_sd_witness:
  "weight_files example_json ''data/sd_train_sample_weight.json'' = Some [(''sd1'', 1)] \<and>
   init example_json 1 example_args 7 () ''data'' ''train'' None False [] = Inr example_dataset \<and>
   init example_json 1 example_args 7 () ''data'' ''train'' None False [] =
     init example_json 1 example_args 7 () ''data'' ''train'' None True [] \<and>
   self_sd_sample_weight example_dataset = None \<and>
   sample_chain lcg example_dataset 0 True 42 = (Inr (''seqA'', ''1abc_B'', False), 42) \<and>
   sample_chain lcg example_dataset 5 True 0 = (Inr (''seqB'', ''2xyz_A'', False), 0)"
proof -
  have f: "weight_files example_json ''data/sd_train_sample_weight.json'' = Some [(''sd1'', 1)]"
    by (simp add: example_json_def)
  have i: "init example_json 1 example_args 7 () ''data'' ''train'' None False [] = Inr example_dataset"
    by code_simp
  have s1: "sample_chain lcg example_dataset 0 True 42 = (Inr (''seqA'', ''1abc_B'', False), 42)"
    by code_simp
  have s2: "sample_chain lcg example_dataset 5 True 0 = (Inr (''seqB'', ''2xyz_A'', False), 0)"
    by code_simp
  from init_forces_disable_sd [of example_json 1 example_args 7 "()" "''data''" "''train''" None
      False "[]" example_dataset] i
  have "init example_json 1 example_args 7 () ''data'' ''train'' None False [] =
     init example_json 1 example_args 7 () ''data'' ''train'' None True [] \<and>
     self_sd_sample_weight example_dataset = None" by blast
  with f i s1 s2 show ?thesis by blast
qed

section \<open>Reproducible draws and the cross-link feature\<close>

lemma numpy_seed_restores: "snd (numpy_seed rng seed addl_seeds key body g) = g"
  by (simp add: numpy_seed_def Let_def split: prod.splits)

lemma numpy_seed_scoped:
  "fst (numpy_seed rng seed addl_seeds key body g1) =
   fst (numpy_seed rng seed addl_seeds key body g2)"
  by (simp add: numpy_seed_def Let_def split: prod.splits)

lemma scoped_numpy_seed: "scoped (numpy_seed rng seed addl_seeds key body)"
  unfolding scoped_def
  by (rule exI [of _ "fst (body (seed_state rng (hash_seed rng seed addl_seeds key)))"])
    (simp add: numpy_seed_def Let_def split: prod.splits)

lemma scoped_lift: "scoped (lift r)"
  by (auto simp: scoped_def lift_def)

lemma scoped_return: "scoped (return x)"
  by (auto simp: scoped_def return_def)

lemma scoped_raise: "scoped (raise e)"
  by (auto simp: scoped_def raise_def)

lemma scoped_bind:
  assumes "scoped m" and "\<And>x. scoped (f x)"
  shows "scoped (bind m f)"
proof -
  from assms(1) obtain r where m: "\<And>g. m g = (r, g)" by (auto simp: scoped_def)
  show ?thesis
  proof (cases r)
    case (Inl e)
    with m have "\<forall>g. bind m f g = (Inl e, g)" by (simp add: bind_def)
    then show ?thesis unfolding scoped_def by blast
  next
    case (Inr x)
    from assms(2) [of x] obtain r' where "\<And>g. f x g = (r', g)" by (auto simp: scoped_def)
    with m Inr have "\<forall>g. bind m f g = (r', g)" by (simp add: bind_def)
    then show ?thesis unfolding scoped_def by blast
  qed
qed

lemma scoped_recycling: "scoped (recycling rng config mode seed batch_idx)"
  by (auto simp: recycling_def scoped_numpy_seed scoped_return scoped_raise split: option.splits)

lemma scoped_process:
  "scoped (process rng procs config mode features labels seed batch_idx data_idx is_distillation)"
  unfolding process_def Let_def
  by (intro scoped_bind scoped_recycling scoped_lift scoped_numpy_seed scoped_return
      case_prodI2 | simp add: split_def)+


text \<open>
  Claim C1. For every seed and batch index (and every mode, generator and input), the
  recycling draws of \<open>process\<close>, the iteration count and the clamped-FAPE flag, are the same
  from every state of the global generator, and so is everything \<open>process\<close> returns; the
  global state after the draws and after \<open>process\<close> is the state before. Hence unrelated
  draws before or between two calls change nothing.
\<close>

theorem process_reproducible:
  "fst (recycling rng config mode seed batch_idx g1) =
     fst (recycling rng config mode seed batch_idx g2) \<and>
   snd (recycling rng config mode seed batch_idx g1) = g1 \<and>
   fst (process rng procs config mode features labels seed batch_idx data_idx is_distillation g1) =
     fst (process rng procs config mode features labels seed batch_idx data_idx is_distillation g2) \<and>
   snd (process rng procs config mode features labels seed batch_idx data_idx is_distillation g1)
     = g1 \<and>
   fst (process rng procs config mode features labels seed batch_idx data_idx is_distillation
          (unrelated_draws
             (snd (process rng procs config mode features labels seed batch_idx data_idx
                     is_distillation (unrelated_draws' g1))))) =
     fst (process rng procs config mode features labels seed batch_idx data_idx is_distillation g1)"
proof -
  from scoped_recycling [of rng config mode seed batch_idx] obtain r where
    r: "\<And>g. recycling rng config mode seed batch_idx g = (r, g)"
    by (auto simp: scoped_def)
  from scoped_process [of rng procs config mode features labels seed batch_idx data_idx
      is_distillation] obtain p where
    p: "\<And>g. process rng procs config mode features labels seed batch_idx data_idx
                is_distillation g = (p, g)"
    by (auto simp: scoped_def)
  show ?thesis by (simp add: r p)
qed



theorem process_reproducible_witness:
  "recycling lcg example_config ''train'' 7 (Some 3) 42 = (Inr (1, 1), 42) \<and>
   recycling lcg example_config ''train'' 7 (Some 3) 1000 = (Inr (1, 1), 1000) \<and>
   fst (process lcg identity_processors example_config ''train'' example_features None 7
          (Some 3) (Some 5) False 42) =
   fst (process lcg identity_processors example_config ''train'' example_features None 7
          (Some 3) (Some 5) False 1000) \<and>
   snd (process lcg identity_processors example_config ''train'' example_features None 7
          (Some 3) (Some 5) False 42) = 42 \<and>
   map_of (fst (projr (fst (process lcg identity_processors example_config ''train''
                               example_features None 7 (Some 3) (Some 5) False 42))))
     ''num_recycling_iters'' = Some (Scalar 1)"
proof -
  have a: "recycling lcg example_config ''train'' 7 (Some 3) 42 = (Inr (1, 1), 42)"
    by code_simp
  have b: "recycling lcg example_config ''train'' 7 (Some 3) 1000 = (Inr (1, 1), 1000)"
    by code_simp
  have c: "map_of (fst (projr (fst (process lcg identity_processors example_config ''train''
                               example_features None 7 (Some 3) (Some 5) False 42))))
     ''num_recycling_iters'' = Some (Scalar 1)"
    by code_simp
  from process_reproducible [of lcg example_config "''train''" 7 "Some 3" 42 1000
      identity_processors example_features None "Some 5" False id id] a b c
  show ?thesis by simp
qed

lemma shape_tensor_3_zeros:
  assumes "0 < n"
  shows "shape (tensor_3 (zeros3 n n 1)) = [n, n, 1]"
    and "shape (unsqueeze_0 (tensor_3 (zeros3 n n 1))) = [1, n, n, 1]"
proof -
  from assms obtain m where n: "n = Suc m" by (cases n) auto
  show "shape (tensor_3 (zeros3 n n 1)) = [n, n, 1]"
    by (simp add: n tensor_3_def zeros3_def)
  then show "shape (unsqueeze_0 (tensor_3 (zeros3 n n 1))) = [1, n, n, 1]"
    by (simp add: unsqueeze_0_def)
qed

lemma xl_feature_absent:
  "xl_feature xl_files randperm features num_res None chain_id_map = Inr xl \<Longrightarrow>
   xl = tensor_3 (zeros3 (nat num_res) (nat num_res) 1)"
  by (auto simp: xl_feature_def zeros_checked_def try_e_def split: if_splits)

lemma xl_feature_supplied:
  "xl_feature xl_files randperm features num_res (Some crosslinks) chain_id_map = Inr xl \<Longrightarrow>
   \<exists>arr. xl = unsqueeze_0 (tensor_3 arr)"
  by (auto simp: xl_feature_def try_e_def split: sum.splits option.splits)

text \<open>
  Claim C8 fails on the code: without a cross-link source the feature \<open>xl\<close> has shape
  \<open>num_res \<times> num_res \<times> 1\<close>, with a source (also one that holds no link, where the tensor is
  all-zero as well) it has shape \<open>1 \<times> num_res \<times> num_res \<times> 1\<close>. The key \<open>xl\<close> is present in
  both cases.
\<close>

theorem process_ap_xl_shape:
  "map_option shape
     (xl_of (process_ap lcg identity_processors example_xl_files identity_perm example_config
               ''eval'' example_features None 7 None False None None 42)) = Some [2, 2, 1] \<and>
   map_option flatten
     (xl_of (process_ap lcg identity_processors example_xl_files identity_perm example_config
               ''eval'' example_features None 7 None False None None 42)) = Some [0, 0, 0, 0] \<and>
   map_option shape
     (xl_of (process_ap lcg identity_processors example_xl_files identity_perm example_config
               ''eval'' example_features None 7 None False (Some ''none.pkl.gz'')
               (Some example_chain_id_map) 42)) = Some [1, 2, 2, 1] \<and>
   map_option flatten
     (xl_of (process_ap lcg identity_processors example_xl_files identity_perm example_config
               ''eval'' example_features None 7 None False (Some ''none.pkl.gz'')
               (Some example_chain_id_map) 42)) = Some [0, 0, 0, 0] \<and>
   map_option shape
     (xl_of (process_ap lcg identity_processors example_xl_files identity_perm example_config
               ''eval'' example_features None 7 None False (Some ''links.pkl.gz'')
               (Some example_chain_id_map) 42)) = Some [1, 2, 2, 1] \<and>
   map_option flatten
     (xl_of (process_ap lcg identity_processors example_xl_files identity_perm example_config
               ''eval'' example_features None 7 None False (Some ''links.pkl.gz'')
               (Some example_chain_id_map) 42)) = Some [0, 18, 18, 0]"
  by code_simp

end
